theory Spec2Isabelle
  imports Complex_Main
begin

section \<open>JavaScript strings and the regular-expression classes the code uses\<close>

text \<open>
  A JavaScript string is a sequence of UTF-16 code units; a code unit is modelled as a
  natural number and a string as a list of them.  String literals of the source are written
  \<open>js ''...''\<close>, single characters \<open>ch CHR ''x''\<close>.
\<close>

type_synonym jsstring = "nat list"

abbreviation ch :: "char \<Rightarrow> nat" where
  "ch c \<equiv> of_char c"

definition js :: "string \<Rightarrow> jsstring" where
  "js s = map of_char s"

text \<open>The class \<open>\s\<close> of ECMAScript (white space and line terminators); \<open>trim\<close> strips the same set.\<close>

definition isSpace :: "nat \<Rightarrow> bool" where
  "isSpace c = (c = 9 \<or> c = 10 \<or> c = 11 \<or> c = 12 \<or> c = 13 \<or> c = 32 \<or> c = 160 \<or> c = 5760
     \<or> (8192 \<le> c \<and> c \<le> 8202) \<or> c = 8232 \<or> c = 8233 \<or> c = 8239 \<or> c = 8287
     \<or> c = 12288 \<or> c = 65279)"

definition isDigit :: "nat \<Rightarrow> bool" where
  "isDigit c = (48 \<le> c \<and> c \<le> 57)"

definition isLower :: "nat \<Rightarrow> bool" where
  "isLower c = (97 \<le> c \<and> c \<le> 122)"

definition isUpper :: "nat \<Rightarrow> bool" where
  "isUpper c = (65 \<le> c \<and> c \<le> 90)"

text \<open>\<open>[a-z0-9]\<close>, \<open>[A-Za-z0-9]\<close> and \<open>\w\<close>.\<close>

definition isLowerAlnum :: "nat \<Rightarrow> bool" where
  "isLowerAlnum c = (isLower c \<or> isDigit c)"

definition isAlnum :: "nat \<Rightarrow> bool" where
  "isAlnum c = (isUpper c \<or> isLower c \<or> isDigit c)"

definition isWord :: "nat \<Rightarrow> bool" where
  "isWord c = (isAlnum c \<or> c = ch CHR ''_'')"

definition isHyphen :: "nat \<Rightarrow> bool" where
  "isHyphen c = (c = ch CHR ''-'')"

text \<open>
  \<open>String.prototype.toLowerCase\<close>: exact on the Latin-1 range (A-Z and the accented capitals
  U+00C0..U+00DE without the multiplication sign); code units above U+00FF are left as they
  are, the case table of the rest of Unicode is not modelled.
\<close>

definition lowerChar :: "nat \<Rightarrow> nat" where
  "lowerChar c = (if isUpper c then c + 32
                  else if 192 \<le> c \<and> c \<le> 222 \<and> c \<noteq> 215 then c + 32 else c)"

definition toLowerCase :: "jsstring \<Rightarrow> jsstring" where
  "toLowerCase s = map lowerChar s"

text \<open>\<open>s.replace(/P+/g, r)\<close>: every maximal run of characters of the class \<open>P\<close> becomes \<open>r\<close>.\<close>

function replaceRuns :: "(nat \<Rightarrow> bool) \<Rightarrow> jsstring \<Rightarrow> jsstring \<Rightarrow> jsstring" where
  "replaceRuns P r [] = []"
| "replaceRuns P r (c # cs) =
     (if P c then r @ replaceRuns P r (dropWhile P cs) else c # replaceRuns P r cs)"
  by pat_completeness auto
termination
  by (relation "measure (\<lambda>(P, r, s). length s)") (auto simp: length_dropWhile_le less_Suc_eq_le)

definition trim :: "jsstring \<Rightarrow> jsstring" where
  "trim s = rev (dropWhile isSpace (rev (dropWhile isSpace s)))"

definition startsWith :: "jsstring \<Rightarrow> jsstring \<Rightarrow> bool" where
  "startsWith p s = (take (length p) s = p)"

text \<open>
  Matching under the \<open>i\<close> flag: both sides are canonicalised to upper case.  The patterns of
  the source are ASCII letters and punctuation, which no non-ASCII code unit canonicalises to.
\<close>

definition canon :: "nat \<Rightarrow> nat" where
  "canon c = (if isLower c then c - 32 else c)"

definition ciStartsWith :: "jsstring \<Rightarrow> jsstring \<Rightarrow> bool" where
  "ciStartsWith p s = (map canon (take (length p) s) = map canon p)"

text \<open>\<open>s.split(sep)\<close> for a one-character separator (at least one piece), and \<open>a.join(sep)\<close>.\<close>

fun split :: "nat \<Rightarrow> jsstring \<Rightarrow> jsstring list" where
  "split sep [] = [[]]"
| "split sep (c # cs) =
     (if c = sep then [] # split sep cs
      else (case split sep cs of [] \<Rightarrow> [[c]] | w # ws \<Rightarrow> (c # w) # ws))"

fun join :: "jsstring \<Rightarrow> jsstring list \<Rightarrow> jsstring" where
  "join sep [] = []"
| "join sep [w] = w"
| "join sep (w # v # ws) = w @ sep @ join sep (v # ws)"

text \<open>\<open>a.slice(0, n)\<close>: a negative \<open>n\<close> counts from the end of the array.\<close>

definition slice0 :: "'a list \<Rightarrow> int \<Rightarrow> 'a list" where
  "slice0 xs n = (if 0 \<le> n then take (nat n) xs else take (length xs - nat (- n)) xs)"

section \<open>Settings\<close>

text \<open>
  A JavaScript number that the code clamps or tests: a finite number, or anything for which
  \<open>Number.isFinite\<close> is false (NaN, an infinity, a value that is not a number), or a missing
  value (\<open>undefined\<close> or \<open>null\<close>).
\<close>

datatype jsvalue = Nullish | Finite real | NotFinite

text \<open>
  The settings snapshot of one rename.  \<open>maxWords\<close> comes from \<open>parseInt\<close>: it is an integer
  or NaN; the code only tests its truthiness and compares it, so NaN behaves as \<open>0\<close> and is
  represented by it.  An empty \<open>hfToken\<close> is the falsy one.
\<close>

record settings =
  hfToken :: jsstring
  cleanCaptions :: bool
  addDateSuffix :: bool
  skipSmallImages :: bool
  maxWords :: int
  maxImageSize :: nat
  minImageSize :: nat
  enablePdfRenaming :: bool
  pdfMaxChars :: jsvalue
  pdfMaxStreams :: jsvalue
  enableNotifications :: bool

section \<open>The slugifier of the image-only release (\<open>captionToFilename\<close>, first version)\<close>

text \<open>
  An alternation of words followed by \<open>\s+\<close>, matched at the head of the string under the
  \<open>i\<close> flag: the alternatives are tried in order, \<open>\s+\<close> is greedy.  The result is what
  follows the match.
\<close>

fun matchWordSpaces :: "jsstring list \<Rightarrow> jsstring \<Rightarrow> jsstring option" where
  "matchWordSpaces [] s = None"
| "matchWordSpaces (w # ws) s =
     (if ciStartsWith w s \<and> dropWhile isSpace (drop (length w) s) \<noteq> drop (length w) s
      then Some (dropWhile isSpace (drop (length w) s))
      else matchWordSpaces ws s)"

text \<open>\<open>filename.replace(/^(a|an|the)\s+/gi, '')\<close>\<close>

definition stripLeadingArticle :: "jsstring \<Rightarrow> jsstring" where
  "stripLeadingArticle s =
     (case matchWordSpaces [js ''a'', js ''an'', js ''the''] s of
        Some rest \<Rightarrow> rest
      | None \<Rightarrow> s)"

text \<open>
  \<open>s.replace(/\s+(w1|w2|...)\s+/gi, ' ')\<close>, scanning from the left: a run of white space,
  one of the words and a further run of white space become one space, and the scan goes on
  after the match; anywhere else one character is copied.
\<close>

function removeWords :: "jsstring list \<Rightarrow> jsstring \<Rightarrow> jsstring" where
  "removeWords ws [] = []"
| "removeWords ws (c # cs) =
     (if isSpace c then
        (case matchWordSpaces ws (dropWhile isSpace cs) of
           Some rest \<Rightarrow> ch CHR '' '' # removeWords ws rest
         | None \<Rightarrow> c # removeWords ws cs)
      else c # removeWords ws cs)"
  by pat_completeness auto
termination
proof (relation "measure (\<lambda>(ws, s). length s)")
  show "wf (measure (\<lambda>(ws, s). length s))" by simp
next
  fix ws :: "jsstring list" and c :: nat and cs rest :: jsstring
  assume m: "matchWordSpaces ws (dropWhile isSpace cs) = Some rest"
  have "\<And>s. matchWordSpaces ws s = Some rest \<Longrightarrow> length rest \<le> length s"
  proof (induction ws)
    case Nil
    then show ?case by simp
  next
    case (Cons w ws)
    have "length (dropWhile isSpace (drop (length w) s)) \<le> length s"
      using length_dropWhile_le [of isSpace "drop (length w) s"] by simp
    with Cons show ?case by (auto split: if_splits)
  qed
  from this [OF m] have "length rest \<le> length (dropWhile isSpace cs)" .
  also have "\<dots> \<le> length cs" by (rule length_dropWhile_le)
  finally show "((ws, rest), (ws, c # cs)) \<in> measure (\<lambda>(ws, s). length s)" by simp
qed auto

text \<open>\<open>.replace(/^-|-$/g, '')\<close>: one hyphen at the start and one at the end.\<close>

definition trimHyphen :: "jsstring \<Rightarrow> jsstring" where
  "trimHyphen s =
     (let s1 = (case s of [] \<Rightarrow> [] | c # cs \<Rightarrow> if isHyphen c then cs else s)
      in if s1 \<noteq> [] \<and> isHyphen (last s1) then butlast s1 else s1)"

text \<open>The kebab-case step: four replacements in a row.\<close>

definition kebab :: "jsstring \<Rightarrow> jsstring" where
  "kebab s =
     trimHyphen
       (replaceRuns isHyphen (js ''-'')
         (replaceRuns isSpace (js ''-'')
           (filter (\<lambda>c. isLowerAlnum c \<or> isSpace c \<or> isHyphen c) s)))"

text \<open>The word limit: only for a truthy, positive \<open>maxWords\<close>, and only when there are more words.\<close>

definition limitWords :: "int \<Rightarrow> jsstring \<Rightarrow> jsstring" where
  "limitWords n s =
     (if n \<noteq> 0 \<and> n > 0 then
        (let ws = split (ch CHR ''-'') s
         in if int (length ws) > n then join (js ''-'') (take (nat n) ws) else s)
      else s)"

text \<open>\<open>filename.slice(0, 60).replace(/-+$/, '')\<close>, when the name is longer than 60.\<close>

definition limitLength :: "jsstring \<Rightarrow> jsstring" where
  "limitLength s =
     (if length s > 60 then rev (dropWhile isHyphen (rev (take 60 s))) else s)"

text \<open>The steps of \<open>captionToFilename\<close> (first version) up to the length limit.\<close>

definition slugRaw_v1 :: "jsstring \<Rightarrow> settings \<Rightarrow> jsstring" where
  "slugRaw_v1 caption st =
     (let filename = toLowerCase caption;
          filename = (if cleanCaptions st then stripLeadingArticle filename else filename);
          filename = removeWords [js ''the'']
                       (removeWords [js ''on'', js ''in'', js ''at'', js ''with'', js ''by'', js ''of'']
                          filename);
          filename = kebab filename;
          filename = limitWords (maxWords st) filename
      in limitLength filename)"

text \<open>"Ensure we have something": the name before the date suffix.\<close>

definition slugBase_v1 :: "jsstring \<Rightarrow> settings \<Rightarrow> jsstring" where
  "slugBase_v1 caption st =
     (let filename = slugRaw_v1 caption st
      in if filename = [] \<or> length filename < 2 then js ''image'' else filename)"

text \<open>
  The date suffix is \<open>new Date().toISOString().split('T')[0]\<close>; the clock is an input of the
  model: \<open>today\<close> is that string.
\<close>

definition captionToFilename_v1 :: "jsstring \<Rightarrow> jsstring \<Rightarrow> settings \<Rightarrow> jsstring" where
  "captionToFilename_v1 today caption st =
     (if addDateSuffix st then slugBase_v1 caption st @ js ''-'' @ today
      else slugBase_v1 caption st)"

section \<open>The slugifier of the image and PDF release (\<open>captionToFilename\<close> of hf-api.js)\<close>

definition wordEnd :: "jsstring \<Rightarrow> bool" where
  "wordEnd s = (case s of [] \<Rightarrow> True | c # cs \<Rightarrow> \<not> isWord c)"

text \<open>
  \<open>text.replace(/\b(a|an|the)\b/g, '')\<close>, scanning from the left.  \<open>pw\<close> says whether the
  character before the current position is a word character: the first \<open>\b\<close> holds when it is
  not (an article starts with a word character), the second when no word character follows.
  The alternatives are tried in order.
\<close>

fun removeArticles :: "bool \<Rightarrow> jsstring \<Rightarrow> jsstring" where
  "removeArticles pw [] = []"
| "removeArticles pw (c # cs) =
     (if \<not> pw \<and> startsWith (js ''a'') (c # cs) \<and> wordEnd cs
        then removeArticles True cs
      else if \<not> pw \<and> startsWith (js ''an'') (c # cs) \<and> wordEnd (drop 1 cs)
        then removeArticles True (drop 1 cs)
      else if \<not> pw \<and> startsWith (js ''the'') (c # cs) \<and> wordEnd (drop 2 cs)
        then removeArticles True (drop 2 cs)
      else c # removeArticles (isWord c) cs)"

definition normalizeSpaces :: "jsstring \<Rightarrow> jsstring" where
  "normalizeSpaces s = trim (replaceRuns isSpace (js '' '') s)"

text \<open>The hyphen-joined words \<open>limited\<close> of \<open>captionToFilename\<close>.\<close>

definition limited :: "jsstring \<Rightarrow> settings \<Rightarrow> jsstring" where
  "limited caption st =
     (let text = normalizeSpaces
                   (filter (\<lambda>c. isWord c \<or> isSpace c \<or> isHyphen c) (toLowerCase caption));
          text = (if cleanCaptions st then normalizeSpaces (removeArticles False text) else text);
          words = filter (\<lambda>w. length w > 0) (split (ch CHR '' '') text)
      in join (js ''-'') (slice0 words (if maxWords st = 0 then 5 else maxWords st)))"

definition captionToFilename :: "jsstring \<Rightarrow> jsstring \<Rightarrow> settings \<Rightarrow> jsstring" where
  "captionToFilename today caption st =
     (if addDateSuffix st then limited caption st @ js ''-'' @ today
      else if limited caption st = [] then js ''download'' else limited caption st)"

section \<open>The shape of a slug\<close>

text \<open>
  The regular expression \<open>^[a-z0-9]+(-[a-z0-9]+)*$\<close> as its two-state automaton: the flag says
  whether the character before was one of \<open>[a-z0-9]\<close>; a hyphen is allowed only after one, and
  the string must end after one.
\<close>

fun slugDFA :: "bool \<Rightarrow> jsstring \<Rightarrow> bool" where
  "slugDFA afterAlnum [] = afterAlnum"
| "slugDFA afterAlnum (c # cs) =
     (if isLowerAlnum c then slugDFA True cs
      else if isHyphen c \<and> afterAlnum then slugDFA False cs
      else False)"

definition matchesSlug :: "jsstring \<Rightarrow> bool" where
  "matchesSlug s = slugDFA False s"

text \<open>The shape \<open>YYYY-MM-DD\<close> of the date suffix.\<close>

definition isIsoDate :: "jsstring \<Rightarrow> bool" where
  "isIsoDate d =
     (length d = 10 \<and> list_all isDigit (take 4 d) \<and> take 1 (drop 4 d) = js ''-''
      \<and> list_all isDigit (take 2 (drop 5 d)) \<and> take 1 (drop 7 d) = js ''-''
      \<and> list_all isDigit (drop 8 d))"

text \<open>No two hyphens in a row.\<close>

fun noDouble :: "jsstring \<Rightarrow> bool" where
  "noDouble (a # b # r) = (\<not> (isHyphen a \<and> isHyphen b) \<and> noDouble (b # r))"
| "noDouble r = True"

text \<open>The characters \<open>[a-z0-9_-]\<close>.\<close>

definition isNameChar :: "nat \<Rightarrow> bool" where
  "isNameChar c = (isLowerAlnum c \<or> c = ch CHR ''_'' \<or> isHyphen c)"

text \<open>The characters \<open>[a-z0-9-]\<close>.\<close>

definition isSlugChar :: "nat \<Rightarrow> bool" where
  "isSlugChar c = (isLowerAlnum c \<or> isHyphen c)"

section \<open>PDF text extraction (pdf-extract.js)\<close>

text \<open>
  The bytes of a \<open>Uint8Array\<close> are natural numbers below 256.  \<open>new TextDecoder('latin1')\<close>
  decodes one byte to one code unit (the label names windows-1252, whose bytes 0x80 to 0x9F
  are the code points below), so indices of the text and of the bytes agree.
\<close>

type_synonym bytes = "nat list"

definition cp1252 :: "nat \<Rightarrow> nat" where
  "cp1252 b =
     (if 128 \<le> b \<and> b < 160
      then [8364, 129, 8218, 402, 8222, 8230, 8224, 8225, 710, 8240, 352, 8249, 338, 141, 381, 143,
            144, 8216, 8217, 8220, 8221, 8226, 8211, 8212, 732, 8482, 353, 8250, 339, 157, 382, 376]
           ! (b - 128)
      else b)"

definition latin1Decode :: "bytes \<Rightarrow> jsstring" where
  "latin1Decode bs = map cp1252 bs"

text \<open>
  What the browser provides and the repository does not contain: \<open>DecompressionStream\<close>
  (absent on an old browser; on bad data it fails with a message) and the UTF-8 and UTF-16BE
  text decoders (\<open>None\<close> when the call throws).
\<close>

record platform =
  decompressionStream :: "(bytes \<Rightarrow> jsstring + bytes) option"
  utf8Decode :: "bytes \<Rightarrow> jsstring option"
  utf16beDecode :: "bytes \<Rightarrow> jsstring option"

record pdfOpts =
  maxChars :: jsvalue
  maxStreams :: jsvalue

record pdfPreview =
  title :: jsstring
  excerpt :: jsstring

text \<open>\<open>clampInt(n, min, max)\<close>\<close>

definition clampInt :: "jsvalue \<Rightarrow> int \<Rightarrow> int \<Rightarrow> int" where
  "clampInt n mn mx =
     (let x = (case n of Finite r \<Rightarrow> \<lfloor>r\<rfloor> | Nullish \<Rightarrow> mn | NotFinite \<Rightarrow> mn)
      in max mn (min mx x))"

text \<open>\<open>v ?? d\<close>\<close>

definition orDefault :: "jsvalue \<Rightarrow> jsvalue \<Rightarrow> jsvalue" where
  "orDefault v d = (case v of Nullish \<Rightarrow> d | Finite r \<Rightarrow> v | NotFinite \<Rightarrow> v)"

definition isCtl :: "nat \<Rightarrow> bool" where
  "isCtl c = (c \<le> 31)"

definition cleanupText :: "jsstring \<Rightarrow> jsstring" where
  "cleanupText s = trim (replaceRuns isCtl (js '' '') (replaceRuns isSpace (js '' '') s))"

text \<open>
  \<open>s.indexOf(pat, start)\<close> for a non-empty \<open>pat\<close>: \<open>findPrefix\<close> walks the text from index \<open>i\<close>.
\<close>

fun findPrefix :: "jsstring \<Rightarrow> jsstring \<Rightarrow> nat \<Rightarrow> nat option" where
  "findPrefix pat [] i = None"
| "findPrefix pat (c # cs) i =
     (if startsWith pat (c # cs) then Some i else findPrefix pat cs (i + 1))"

definition indexOf :: "jsstring \<Rightarrow> jsstring \<Rightarrow> nat \<Rightarrow> nat option" where
  "indexOf pat s start = findPrefix pat (drop start s) start"

definition includesStr :: "jsstring \<Rightarrow> jsstring \<Rightarrow> bool" where
  "includesStr pat s = (indexOf pat s 0 \<noteq> None)"

definition isOctalDigit :: "nat \<Rightarrow> bool" where
  "isOctalDigit c = (48 \<le> c \<and> c \<le> 55)"

text \<open>The octal digit at index \<open>i\<close> of the rest, if there is one (\<open>isOctalDigit(undefined)\<close> is false).\<close>

definition octAt :: "jsstring \<Rightarrow> nat \<Rightarrow> jsstring" where
  "octAt r i = (if i < length r \<and> isOctalDigit (r ! i) then [r ! i] else [])"

definition parseOct :: "jsstring \<Rightarrow> nat" where
  "parseOct ds = foldl (\<lambda>a d. 8 * a + (d - 48)) 0 ds"

text \<open>
  \<open>decodePdfLiteralString\<close>: the loop over the index becomes a recursion on the rest of the
  string.  After a backslash, \<open>next\<close> is the following character; an octal escape reads the
  characters at \<open>i + 2\<close> and \<open>i + 3\<close> each on its own and then advances by the number of digits
  it kept.
\<close>

fun decodePdfLiteralString :: "jsstring \<Rightarrow> jsstring" where
  "decodePdfLiteralString [] = []"
| "decodePdfLiteralString (c # cs) =
     (if c \<noteq> 92 then c # decodePdfLiteralString cs
      else
        (case cs of
           [] \<Rightarrow> []
         | next # r \<Rightarrow>
             if next = ch CHR ''n'' then 10 # decodePdfLiteralString r
             else if next = ch CHR ''r'' then 13 # decodePdfLiteralString r
             else if next = ch CHR ''t'' then 9 # decodePdfLiteralString r
             else if next = ch CHR ''b'' then 8 # decodePdfLiteralString r
             else if next = ch CHR ''f'' then 12 # decodePdfLiteralString r
             else if next = 92 then 92 # decodePdfLiteralString r
             else if next = ch CHR ''('' then ch CHR ''('' # decodePdfLiteralString r
             else if next = ch CHR '')'' then ch CHR '')'' # decodePdfLiteralString r
             else if next = 10 \<or> next = 13 then
               (if next = 13 \<and> startsWith [10] r then decodePdfLiteralString (drop 1 r)
                else decodePdfLiteralString r)
             else if isOctalDigit next then
               parseOct (next # octAt r 0 @ octAt r 1)
                 # decodePdfLiteralString (drop (length (next # octAt r 0 @ octAt r 1)) cs)
             else next # decodePdfLiteralString r))"

text \<open>
  \<open>pdfLatin.match(/\/Title\s*\(([^)]{1,300})\)/)\<close>: the captured text of the leftmost match.
  After \<open>/Title\<close> and white space an opening parenthesis must follow, then 1 to 300
  characters other than \<open>)\<close>, then \<open>)\<close>.
\<close>

fun infoTitleMatch :: "jsstring \<Rightarrow> jsstring option" where
  "infoTitleMatch [] = None"
| "infoTitleMatch (c # cs) =
     (if startsWith (js ''/Title'') (c # cs) then
        (case dropWhile isSpace (drop 5 cs) of
           [] \<Rightarrow> infoTitleMatch cs
         | p # r \<Rightarrow>
             if p = ch CHR ''(''
                \<and> 1 \<le> length (takeWhile (\<lambda>x. x \<noteq> ch CHR '')'') r)
                \<and> length (takeWhile (\<lambda>x. x \<noteq> ch CHR '')'') r) \<le> 300
                \<and> length (takeWhile (\<lambda>x. x \<noteq> ch CHR '')'') r) < length r
             then Some (takeWhile (\<lambda>x. x \<noteq> ch CHR '')'') r)
             else infoTitleMatch cs)
      else infoTitleMatch cs)"

definition extractInfoTitle :: "jsstring \<Rightarrow> jsstring" where
  "extractInfoTitle pdfLatin =
     (case infoTitleMatch pdfLatin of None \<Rightarrow> [] | Some m \<Rightarrow> decodePdfLiteralString m)"

text \<open>The text before the first occurrence of \<open>pat\<close> under the \<open>i\<close> flag (a lazy \<open>[\s\S]*?\<close>).\<close>

fun ciBefore :: "jsstring \<Rightarrow> jsstring \<Rightarrow> jsstring option" where
  "ciBefore pat [] = None"
| "ciBefore pat (c # cs) =
     (if ciStartsWith pat (c # cs) then Some []
      else (case ciBefore pat cs of None \<Rightarrow> None | Some b \<Rightarrow> Some (c # b)))"

text \<open>
  \<open>snippet.match(/<rdf:li[^>]*>([\s\S]*?)<\/rdf:li>/i)\<close>: the captured text of the leftmost
  match.
\<close>

fun rdfLiMatch :: "jsstring \<Rightarrow> jsstring option" where
  "rdfLiMatch [] = None"
| "rdfLiMatch (c # cs) =
     (if ciStartsWith (js ''<rdf:li'') (c # cs) then
        (case dropWhile (\<lambda>x. x \<noteq> ch CHR ''>'') (drop 6 cs) of
           [] \<Rightarrow> rdfLiMatch cs
         | g # body \<Rightarrow>
             (case ciBefore (js ''</rdf:li>'') body of
                None \<Rightarrow> rdfLiMatch cs
              | Some inner \<Rightarrow> Some inner))
      else rdfLiMatch cs)"

text \<open>\<open>xml.replace(/<[^>]*>/g, ' ')\<close>\<close>

function stripXmlTags :: "jsstring \<Rightarrow> jsstring" where
  "stripXmlTags [] = []"
| "stripXmlTags (c # cs) =
     (if c = ch CHR ''<'' then
        (case dropWhile (\<lambda>x. x \<noteq> ch CHR ''>'') cs of
           [] \<Rightarrow> c # stripXmlTags cs
         | g # rest \<Rightarrow> ch CHR '' '' # stripXmlTags rest)
      else c # stripXmlTags cs)"
  by pat_completeness auto
termination
proof (relation "measure length")
  fix c g :: nat and cs rest :: jsstring
  assume "dropWhile (\<lambda>x. x \<noteq> ch CHR ''>'') cs = g # rest"
  then have "length (g # rest) \<le> length cs"
    using length_dropWhile_le [of "\<lambda>x. x \<noteq> ch CHR ''>''" cs] by simp
  then show "(rest, c # cs) \<in> measure length" by simp
qed auto

text \<open>\<open>s.replace(/pat/g, rep)\<close> for a literal, non-empty \<open>pat\<close>.\<close>

fun replaceAll :: "jsstring \<Rightarrow> jsstring \<Rightarrow> jsstring \<Rightarrow> jsstring" where
  "replaceAll pat rep [] = []"
| "replaceAll pat rep (c # cs) =
     (if startsWith pat (c # cs) then rep @ replaceAll pat rep (drop (length pat - 1) cs)
      else c # replaceAll pat rep cs)"

definition decodeHtmlEntities :: "jsstring \<Rightarrow> jsstring" where
  "decodeHtmlEntities s =
     replaceAll (js ''&#39;'') [39]
       (replaceAll (js ''&quot;'') [34]
         (replaceAll (js ''&gt;'') (js ''>'')
           (replaceAll (js ''&lt;'') (js ''<'')
             (replaceAll (js ''&amp;'') (js ''&'') s))))"

definition extractXmpTitle :: "jsstring \<Rightarrow> jsstring" where
  "extractXmpTitle pdfLatin =
     (case indexOf (js ''<dc:title'') pdfLatin 0 of
        None \<Rightarrow> []
      | Some start \<Rightarrow>
          (case indexOf (js ''</dc:title>'') pdfLatin start of
             None \<Rightarrow> []
           | Some endIdx \<Rightarrow>
               (let snippet = take (endIdx + length (js ''</dc:title>'') - start) (drop start pdfLatin);
                    raw = (case rdfLiMatch snippet of Some li \<Rightarrow> li | None \<Rightarrow> snippet)
                in trim (decodeHtmlEntities (stripXmlTags raw)))))"

text \<open>
  \<open>/^[A-Z]{1,4}\+?[A-Za-z0-9]{2,10}$/.test(s)\<close>: some split of the string into 1 to 4 capitals,
  an optional plus sign and 2 to 10 letters or digits.
\<close>

definition fontTail :: "jsstring \<Rightarrow> bool" where
  "fontTail t = (2 \<le> length t \<and> length t \<le> 10 \<and> list_all isAlnum t)"

definition fontShape :: "jsstring \<Rightarrow> bool" where
  "fontShape s =
     list_ex (\<lambda>k. k \<le> length s \<and> list_all isUpper (take k s)
                \<and> (fontTail (drop k s)
                    \<or> (startsWith (js ''+'') (drop k s) \<and> fontTail (drop (k + 1) s))))
       [1, 2, 3, 4]"

definition isUsefulText :: "jsstring \<Rightarrow> bool" where
  "isUsefulText s =
     (if s = [] then False
      else if length s < 6 then False
      else if length (filter isAlnum s) < min 6 (length s div 4) then False
      else if fontShape s then False
      else True)"

definition isHexDigit :: "nat \<Rightarrow> bool" where
  "isHexDigit c = (isDigit c \<or> (65 \<le> c \<and> c \<le> 70) \<or> (97 \<le> c \<and> c \<le> 102))"

definition hexVal :: "nat \<Rightarrow> nat" where
  "hexVal c = (if isDigit c then c - 48 else if c \<le> 70 then c - 55 else c - 87)"

fun hexPairs :: "jsstring \<Rightarrow> bytes" where
  "hexPairs (a # b # r) = (16 * hexVal a + hexVal b) # hexPairs r"
| "hexPairs r = []"

definition decodePdfHexString :: "platform \<Rightarrow> jsstring \<Rightarrow> jsstring" where
  "decodePdfHexString pf hex =
     (let bs = hexPairs (if odd (length hex) then hex @ js ''0'' else hex);
          viaUtf8 = (case utf8Decode pf bs of
                       Some txt \<Rightarrow> if txt \<noteq> [] \<and> list_ex isAlnum txt then txt else latin1Decode bs
                     | None \<Rightarrow> latin1Decode bs)
      in if length bs \<ge> 2 \<and> take 2 bs = [254, 255]
         then (case utf16beDecode pf (drop 2 bs) of Some txt \<Rightarrow> txt | None \<Rightarrow> viaUtf8)
         else viaUtf8)"

text \<open>
  The body of \<open>/\((?:\\.|[^\\()]){3,400}\)/\<close> after the opening parenthesis: items are taken
  greedily, at most 400; an item is a backslash with any character but a line terminator, or
  one character other than backslash and parentheses.  The result is the number of items,
  their text and the rest.  No shorter repetition can be followed by \<open>)\<close>, so backtracking
  finds nothing else.
\<close>

definition isLineTerminator :: "nat \<Rightarrow> bool" where
  "isLineTerminator c = (c = 10 \<or> c = 13 \<or> c = 8232 \<or> c = 8233)"

fun litItems :: "nat \<Rightarrow> jsstring \<Rightarrow> nat \<times> jsstring \<times> jsstring" where
  "litItems k [] = (k, [], [])"
| "litItems k (c # cs) =
     (if k \<ge> 400 then (k, [], c # cs)
      else if c = 92 then
        (case cs of
           [] \<Rightarrow> (k, [], c # cs)
         | d # ds \<Rightarrow>
             if isLineTerminator d then (k, [], c # cs)
             else (case litItems (k + 1) ds of (n, b, r) \<Rightarrow> (n, c # d # b, r)))
      else if c = ch CHR ''('' \<or> c = ch CHR '')'' then (k, [], c # cs)
      else (case litItems (k + 1) cs of (n, b, r) \<Rightarrow> (n, c # b, r)))"

definition litMatch :: "jsstring \<Rightarrow> jsstring option" where
  "litMatch cs =
     (case litItems 0 cs of
        (n, b, r) \<Rightarrow> if 3 \<le> n \<and> startsWith (js '')'') r then Some b else None)"

text \<open>
  The successive matches of the global expression: \<open>skip\<close> characters belong to the match
  just found; each match gives \<open>m[0].slice(1, -1)\<close>.
\<close>

fun litMatches :: "nat \<Rightarrow> jsstring \<Rightarrow> jsstring list" where
  "litMatches skip [] = []"
| "litMatches skip (c # cs) =
     (if skip > 0 then litMatches (skip - 1) cs
      else if c = ch CHR ''('' then
        (case litMatch cs of
           Some b \<Rightarrow> b # litMatches (length b + 1) cs
         | None \<Rightarrow> litMatches 0 cs)
      else litMatches 0 cs)"

text \<open>\<open>/<([0-9A-Fa-f]{8,800})>/g\<close>: the captured digits of the successive matches.\<close>

fun hexMatches :: "nat \<Rightarrow> jsstring \<Rightarrow> jsstring list" where
  "hexMatches skip [] = []"
| "hexMatches skip (c # cs) =
     (if skip > 0 then hexMatches (skip - 1) cs
      else if c = ch CHR ''<''
              \<and> 8 \<le> length (takeWhile isHexDigit cs) \<and> length (takeWhile isHexDigit cs) \<le> 800
              \<and> startsWith (js ''>'') (dropWhile isHexDigit cs)
        then takeWhile isHexDigit cs # hexMatches (length (takeWhile isHexDigit cs) + 1) cs
      else hexMatches 0 cs)"

text \<open>
  One \<open>while ((m = re.exec(slice)))\<close> loop of \<open>extractLiteralStrings\<close>: decode, keep the useful
  text, stop once the joined results are longer than 3500.
\<close>

fun collect :: "(jsstring \<Rightarrow> jsstring) \<Rightarrow> jsstring list \<Rightarrow> jsstring list \<Rightarrow> jsstring list" where
  "collect dec [] results = results"
| "collect dec (m # ms) results =
     (let decoded = cleanupText (dec m);
          results' = (if isUsefulText decoded then results @ [decoded] else results)
      in if length (join (js '' '') results') > 3500 then results'
         else collect dec ms results')"

definition extractLiteralStrings :: "platform \<Rightarrow> jsstring \<Rightarrow> jsstring list" where
  "extractLiteralStrings pf streamText =
     (let slice = take 400000 streamText;
          results = collect decodePdfLiteralString (litMatches 0 slice) []
      in collect (decodePdfHexString pf) (hexMatches 0 slice) results)"

text \<open>
  \<open>inflateFlate\<close>: \<open>null\<close> when \<open>DecompressionStream\<close> is undefined, and \<open>null\<close> from the \<open>catch\<close>
  when decompression fails.
\<close>

definition inflateFlate :: "platform \<Rightarrow> bytes \<Rightarrow> bytes option" where
  "inflateFlate pf u8 =
     (case decompressionStream pf of
        None \<Rightarrow> None
      | Some ds \<Rightarrow> (case ds u8 of Inl failure \<Rightarrow> None | Inr ab \<Rightarrow> Some ab))"

text \<open>
  The successive matches of \<open>/stream\r?\n/g\<close> in the text, as (index, length).  The loop never
  changes \<open>lastIndex\<close>, so the matches do not depend on what the loop body does.
\<close>

fun streamMatches :: "nat \<Rightarrow> nat \<Rightarrow> jsstring \<Rightarrow> (nat \<times> nat) list" where
  "streamMatches skip i [] = []"
| "streamMatches skip i (c # cs) =
     (if skip > 0 then streamMatches (skip - 1) (i + 1) cs
      else if startsWith (js ''stream'' @ [13, 10]) (c # cs) then (i, 8) # streamMatches 7 (i + 1) cs
      else if startsWith (js ''stream'' @ [10]) (c # cs) then (i, 7) # streamMatches 6 (i + 1) cs
      else streamMatches 0 (i + 1) cs)"

text \<open>
  The bytes the loop body decodes for the stream matched at \<open>idx\<close>: \<open>None\<close> is the
  \<open>streamsSeen++; continue\<close> of a Flate stream that could not be inflated.
\<close>

definition decodedBytes :: "platform \<Rightarrow> bytes \<Rightarrow> jsstring \<Rightarrow> nat \<Rightarrow> nat \<Rightarrow> nat \<Rightarrow> bytes option" where
  "decodedBytes pf bs pdfLatin idx dataStart endstreamIdx =
     (let dictStart = idx - 2500;
          dictChunk = take (idx - dictStart) (drop dictStart pdfLatin);
          isFlate = includesStr (js ''/FlateDecode'') dictChunk;
          rawStreamBytes = take (endstreamIdx - dataStart) (drop dataStart bs)
      in if isFlate then
           (case inflateFlate pf rawStreamBytes of
              None \<Rightarrow> None
            | Some inflated \<Rightarrow> if inflated \<noteq> [] then Some inflated else None)
         else Some rawStreamBytes)"

text \<open>
  The \<open>while\<close> loop of \<open>extractTextFromEarlyStreams\<close> over the matches still to come, with
  its variables \<open>streamsSeen\<close>, \<open>total\<close> (here \<open>totalLen\<close>) and \<open>out\<close>.
\<close>

fun streamLoop ::
  "platform \<Rightarrow> bytes \<Rightarrow> jsstring \<Rightarrow> int \<Rightarrow> int \<Rightarrow> (nat \<times> nat) list \<Rightarrow> nat \<Rightarrow> nat \<Rightarrow> jsstring list
     \<Rightarrow> jsstring list" where
  "streamLoop pf bs pdfLatin maxC maxS [] streamsSeen totalLen out = out"
| "streamLoop pf bs pdfLatin maxC maxS ((idx, len) # ms) streamsSeen totalLen out =
     (if int streamsSeen < maxS \<and> int totalLen < maxC then
        (case indexOf (js ''endstream'') pdfLatin (idx + len) of
           None \<Rightarrow> out
         | Some endstreamIdx \<Rightarrow>
             (case decodedBytes pf bs pdfLatin idx (idx + len) endstreamIdx of
                None \<Rightarrow> streamLoop pf bs pdfLatin maxC maxS ms (streamsSeen + 1) totalLen out
              | Some decoded \<Rightarrow>
                  (let strings = extractLiteralStrings pf (latin1Decode decoded);
                       joined = join (js '' '') strings
                   in if strings \<noteq> [] \<and> length joined > 30
                      then streamLoop pf bs pdfLatin maxC maxS ms (streamsSeen + 1)
                             (totalLen + (length joined + 1)) (out @ [joined])
                      else streamLoop pf bs pdfLatin maxC maxS ms (streamsSeen + 1) totalLen out)))
      else out)"

definition extractTextFromEarlyStreams ::
  "platform \<Rightarrow> bytes \<Rightarrow> jsstring \<Rightarrow> int \<Rightarrow> int \<Rightarrow> jsstring" where
  "extractTextFromEarlyStreams pf bs pdfLatin maxC maxS =
     join (js '' '') (streamLoop pf bs pdfLatin maxC maxS (streamMatches 0 0 pdfLatin) 0 0 [])"

definition extractPdfPreviewText :: "platform \<Rightarrow> bytes \<Rightarrow> pdfOpts \<Rightarrow> pdfPreview" where
  "extractPdfPreviewText pf pdfArrayBuffer opts =
     (let maxC = clampInt (orDefault (maxChars opts) (Finite 2500)) 200 12000;
          maxS = clampInt (orDefault (maxStreams opts) (Finite 12)) 1 100;
          latin = latin1Decode pdfArrayBuffer;
          xmp = extractXmpTitle latin;
          info = extractInfoTitle latin;
          t = take 200 (cleanupText (if xmp \<noteq> [] then xmp else if info \<noteq> [] then info else []));
          e = take (nat maxC) (extractTextFromEarlyStreams pf pdfArrayBuffer latin maxC maxS)
      in \<lparr>title = t, excerpt = cleanupText e\<rparr>)"

section \<open>Configuration (config.js)\<close>

text \<open>\<open>CONFIG.DEFAULTS\<close>\<close>

definition DEFAULTS :: settings where
  "DEFAULTS =
     \<lparr>hfToken = [], cleanCaptions = True, addDateSuffix = False, skipSmallImages = False,
      maxWords = 5, maxImageSize = 5 * 1024 * 1024, minImageSize = 50 * 1024,
      enablePdfRenaming = True, pdfMaxChars = Finite 2500, pdfMaxStreams = Finite 12,
      enableNotifications = True\<rparr>"

text \<open>\<open>CONFIG.RATE_LIMIT.maxPerMinute\<close>\<close>

definition maxPerMinute :: nat where
  "maxPerMinute = 30"

text \<open>
  \<open>CONFIG.IMAGE_TYPES[ext]\<close> is truthy for the five image extensions, and, the table being a
  plain object, for the property names every object inherits.
\<close>

definition imageTypes :: "jsstring \<Rightarrow> bool" where
  "imageTypes ext =
     (ext \<in> set (map js [''jpg'', ''jpeg'', ''png'', ''webp'', ''gif''])
      \<or> ext \<in> set (map js [''constructor'', ''toString'', ''toLocaleString'', ''valueOf'',
                           ''hasOwnProperty'', ''isPrototypeOf'', ''propertyIsEnumerable'',
                           ''__proto__'', ''__defineGetter__'', ''__defineSetter__'',
                           ''__lookupGetter__'', ''__lookupSetter__'']))"

section \<open>The background worker: state, rate limiter, history and statistics\<close>

text \<open>The errors that reach the \<open>catch\<close> of a rename; the history keeps their message.\<close>

datatype error =
    TokenNotConfigured
  | RateLimitReached int
  | FailedToFetch nat
  | FileTooLarge nat
  | Thrown jsstring

record downloadItem =
  filename :: jsstring
  url :: jsstring
  finalUrl :: jsstring
  mime :: jsstring

record historyEntry =
  success :: bool
  original :: "jsstring option"
  renamed :: "jsstring option"
  caption :: "jsstring option"
  failure :: "error option"
  failedName :: "jsstring option"
  fileType :: jsstring
  pdfTitle :: "jsstring option"
  source :: jsstring
  entryId :: int
  timestamp :: int

record stats =
  totalRenames :: nat
  successful :: nat
  failed :: nat
  bySource :: "jsstring \<rightharpoonup> nat"

text \<open>A request sent to the chat-completions endpoint; the PDF prompt is kept as the values it is built from.\<close>

datatype remoteCall =
    CaptionCall jsstring
  | TextCall jsstring jsstring jsstring int

text \<open>
  Everything a rename can change: the two variables of the rate limiter, the stored history
  and statistics, and, in call order, the badge updates, the notifications created (with the message
  of an error or a text), the URLs
  fetched and the requests sent to the model.
\<close>

record world =
  requestCount :: nat
  requestTimestamp :: int
  history :: "historyEntry list"
  stats :: stats
  badges :: "(jsstring \<times> jsstring) list"
  notifications :: "(jsstring \<times> (error + jsstring)) list"
  fetches :: "jsstring list"
  remoteCalls :: "remoteCall list"

text \<open>The answer of \<open>fetch(url)\<close>: it throws, or responds with a status that is not ok, or with a body.\<close>

datatype fetchResponse =
    FetchThrows jsstring
  | NotOk nat
  | Body bytes

text \<open>
  What the outside answers during one rename: the stored settings, the clock (\<open>Date.now()\<close> and
  the ISO date of the day), the response to the fetch, the outcome of \<open>prepareImageForAPI\<close>, the
  answers of the model to \<open>captionImage\<close> and \<open>nameFromText\<close> (a thrown message or the text),
  the host name \<open>safeHostname\<close> finds in the URL, and the browser's decoders.
\<close>

record env =
  storedSettings :: settings
  now :: int
  today :: jsstring
  fetchAnswer :: fetchResponse
  prepared :: "jsstring + jsstring"
  captionAnswer :: "jsstring + jsstring"
  textAnswer :: "jsstring + jsstring"
  hostname :: jsstring
  browser :: platform

text \<open>
  \<open>checkRateLimit\<close>: the reset of a window that is over, the test of the ceiling, the count.
  The result is the error thrown, if any, and the two variables afterwards.
\<close>

definition checkRateLimit :: "int \<Rightarrow> world \<Rightarrow> error option \<times> world" where
  "checkRateLimit nw w =
     (let elapsed = nw - requestTimestamp w;
          w1 = (if elapsed > 60000 then w\<lparr>requestCount := 0, requestTimestamp := nw\<rparr> else w)
      in if requestCount w1 \<ge> maxPerMinute then (Some (RateLimitReached (60000 - elapsed)), w1)
         else (None, w1\<lparr>requestCount := requestCount w1 + 1\<rparr>))"

text \<open>\<open>addToHistory\<close>: the new entry first, the last 100 kept.\<close>

definition addToHistory :: "env \<Rightarrow> historyEntry \<Rightarrow> world \<Rightarrow> world" where
  "addToHistory ev entry w =
     w\<lparr>history := take 100 (entry\<lparr>entryId := now ev, timestamp := now ev\<rparr> # history w)\<rparr>"

definition updateStats :: "bool \<Rightarrow> jsstring \<Rightarrow> world \<Rightarrow> world" where
  "updateStats ok method w =
     (let s = stats w;
          s = s\<lparr>totalRenames := totalRenames s + 1\<rparr>;
          s = (if ok then s\<lparr>successful := successful s + 1\<rparr> else s\<lparr>failed := failed s + 1\<rparr>);
          s = s\<lparr>bySource := (bySource s)(method \<mapsto> (case bySource s method of None \<Rightarrow> 0 | Some n \<Rightarrow> n) + 1)\<rparr>
      in w\<lparr>stats := s\<rparr>)"

definition updateBadge :: "jsstring \<Rightarrow> jsstring \<Rightarrow> world \<Rightarrow> world" where
  "updateBadge text color w = w\<lparr>badges := badges w @ [(text, color)]\<rparr>"

definition notify :: "env \<Rightarrow> jsstring \<Rightarrow> error + jsstring \<Rightarrow> world \<Rightarrow> world" where
  "notify ev ttl message w =
     (if \<not> enableNotifications (storedSettings ev) then w
      else w\<lparr>notifications := notifications w @ [(ttl, message)]\<rparr>)"

text \<open>\<open>fetchFile\<close>: the request is made; a response that is not ok or is too large throws.\<close>

definition fetchFile :: "env \<Rightarrow> jsstring \<Rightarrow> nat \<Rightarrow> world \<Rightarrow> (error + bytes) \<times> world" where
  "fetchFile ev u maxSize w =
     (let w1 = w\<lparr>fetches := fetches w @ [u]\<rparr>
      in case fetchAnswer ev of
           FetchThrows msg \<Rightarrow> (Inl (Thrown msg), w1)
         | NotOk status \<Rightarrow> (Inl (FailedToFetch status), w1)
         | Body buffer \<Rightarrow>
             if length buffer > maxSize then (Inl (FileTooLarge (length buffer)), w1)
             else (Inr buffer, w1))"

text \<open>\<open>filename.split('.').pop()\<close> of the lower-cased name, then the table, then the MIME type.\<close>

definition getImageExtension :: "downloadItem \<Rightarrow> jsstring" where
  "getImageExtension item =
     (let ext = last (split (ch CHR ''.'') (toLowerCase (filename item)));
          m = toLowerCase (mime item)
      in if imageTypes ext then ext
         else if m = js ''image/jpeg'' then js ''jpg''
         else if m = js ''image/png'' then js ''png''
         else if m = js ''image/webp'' then js ''webp''
         else if m = js ''image/gif'' then js ''gif''
         else js ''jpg'')"

text \<open>\<open>stripExtension\<close>: the last path component without its last \<open>.ext\<close>.\<close>

fun lastComponent :: "jsstring \<Rightarrow> jsstring" where
  "lastComponent [] = []"
| "lastComponent (c # cs) =
     (if list_ex (\<lambda>x. x = 92 \<or> x = ch CHR ''/'') (c # cs)
      then lastComponent cs else c # cs)"

definition stripExtension :: "jsstring \<Rightarrow> jsstring" where
  "stripExtension name =
     (let base = (if lastComponent name = [] then name else lastComponent name);
          ext = rev (takeWhile (\<lambda>x. x \<noteq> ch CHR ''.'') (rev base))
      in if ext \<noteq> [] \<and> length ext < length base
         then take (length base - length ext - 1) base else base)"

definition failureEntry :: "env \<Rightarrow> downloadItem \<Rightarrow> jsstring \<Rightarrow> error \<Rightarrow> historyEntry" where
  "failureEntry ev item kind e =
     \<lparr>success = False, original = None, renamed = None, caption = None, failure = Some e,
      failedName = Some (filename item), fileType = kind, pdfTitle = None,
      source = hostname ev, entryId = 0, timestamp = 0\<rparr>"

text \<open>The \<open>catch\<close> block of both flows.\<close>

definition recordFailure :: "env \<Rightarrow> downloadItem \<Rightarrow> jsstring \<Rightarrow> error \<Rightarrow> world \<Rightarrow> world" where
  "recordFailure ev item kind e w =
     notify ev ([9888] @ js '' Rename Failed'') (Inl e)
       (updateBadge [10007] (js ''#CC0000'')
         (updateStats False (js ''error'')
           (addToHistory ev (failureEntry ev item kind e) w)))"

text \<open>
  The four calls that end the \<open>try\<close> block of both flows: the history entry, the counters,
  the badge and the notification.
\<close>

definition recordSuccess ::
  "env \<Rightarrow> historyEntry \<Rightarrow> jsstring \<Rightarrow> jsstring \<Rightarrow> jsstring \<Rightarrow> world \<Rightarrow> world" where
  "recordSuccess ev entry method ttl message w =
     notify ev ttl (Inr message)
       (updateBadge [10003] (js ''#00AA00'')
         (updateStats True method
           (addToHistory ev entry w)))"

section \<open>The image flow (\<open>renameImage\<close>)\<close>

text \<open>
  The two releases import \<open>captionToFilename\<close> from their own hf-api.js; the flow takes the
  slugifier as \<open>slug\<close>.  The \<open>try\<close> block gives the error thrown or the value returned.
\<close>

definition renameImageTry ::
  "(jsstring \<Rightarrow> jsstring \<Rightarrow> settings \<Rightarrow> jsstring) \<Rightarrow> env \<Rightarrow> downloadItem \<Rightarrow> world
     \<Rightarrow> (error + jsstring option) \<times> world" where
  "renameImageTry slug ev item w =
     (let st = storedSettings ev;
          u = (if finalUrl item \<noteq> [] then finalUrl item else url item);
          ext = getImageExtension item
      in if hfToken st = [] then (Inl TokenNotConfigured, w)
         else
           (case checkRateLimit (now ev) w of
              (Some e, w1) \<Rightarrow> (Inl e, w1)
            | (None, w1) \<Rightarrow>
                (case fetchFile ev u (maxImageSize st) (updateBadge (js ''...'') (js ''#0066CC'') w1) of
                   (Inl e, w2) \<Rightarrow> (Inl e, w2)
                 | (Inr imageBuffer, w2) \<Rightarrow>
                     if skipSmallImages st \<and> length imageBuffer < minImageSize st
                     then (Inr None, w2)
                     else
                       (case prepared ev of
                          Inl msg \<Rightarrow> (Inl (Thrown msg), w2)
                        | Inr imageBase64 \<Rightarrow>
                            (let w3 = w2\<lparr>remoteCalls := remoteCalls w2 @ [CaptionCall imageBase64]\<rparr>
                             in case captionAnswer ev of
                                  Inl msg \<Rightarrow> (Inl (Thrown msg), w3)
                                | Inr cap \<Rightarrow>
                                    (let basename = slug (today ev) cap st;
                                         finalName = basename @ js ''.'' @ ext;
                                         w4 = recordSuccess ev
                                                \<lparr>success = True, original = Some (filename item),
                                                 renamed = Some finalName, caption = Some cap,
                                                 failure = None, failedName = None,
                                                 fileType = js ''image'', pdfTitle = None,
                                                 source = hostname ev, entryId = 0, timestamp = 0\<rparr>
                                                (js ''hf-api-image'') ([10003] @ js '' Image Renamed'')
                                                (basename @ [10] @ js ''('' @ cap @ js '')'') w3
                                     in (Inr (Some finalName), w4)))))))"

definition renameImage ::
  "(jsstring \<Rightarrow> jsstring \<Rightarrow> settings \<Rightarrow> jsstring) \<Rightarrow> env \<Rightarrow> downloadItem \<Rightarrow> world
     \<Rightarrow> jsstring option \<times> world" where
  "renameImage slug ev item w =
     (case renameImageTry slug ev item w of
        (Inl e, w1) \<Rightarrow> (None, recordFailure ev item (js ''image'') e w1)
      | (Inr res, w1) \<Rightarrow> (res, w1))"

section \<open>The PDF flow (\<open>renamePdf\<close>)\<close>

definition renamePdfTry ::
  "(jsstring \<Rightarrow> jsstring \<Rightarrow> settings \<Rightarrow> jsstring) \<Rightarrow> env \<Rightarrow> downloadItem \<Rightarrow> world
     \<Rightarrow> (error + jsstring option) \<times> world" where
  "renamePdfTry slug ev item w =
     (let st = storedSettings ev;
          u = (if finalUrl item \<noteq> [] then finalUrl item else url item)
      in if \<not> enablePdfRenaming st then (Inr None, w)
         else if hfToken st = [] then (Inl TokenNotConfigured, w)
         else
           (case checkRateLimit (now ev) w of
              (Some e, w1) \<Rightarrow> (Inl e, w1)
            | (None, w1) \<Rightarrow>
                (case fetchFile ev u (maxImageSize st) (updateBadge (js ''PDF'') (js ''#6A1B9A'') w1) of
                   (Inl e, w2) \<Rightarrow> (Inl e, w2)
                 | (Inr pdfBuffer, w2) \<Rightarrow>
                     (let pv = extractPdfPreviewText (browser ev) pdfBuffer
                                 \<lparr>maxChars = pdfMaxChars st, maxStreams = pdfMaxStreams st\<rparr>;
                          originalBase = stripExtension
                                           (if filename item \<noteq> [] then filename item else js ''document'');
                          w3 = w2\<lparr>remoteCalls := remoteCalls w2 @
                                   [TextCall (take 200 (title pv)) (take 2500 (excerpt pv)) originalBase
                                      (if maxWords st = 0 then 5 else maxWords st)]\<rparr>
                      in case textAnswer ev of
                           Inl msg \<Rightarrow> (Inl (Thrown msg), w3)
                         | Inr suggestion \<Rightarrow>
                             (let basename = slug (today ev) suggestion st;
                                  finalName = basename @ js ''.pdf'';
                                  w4 = recordSuccess ev
                                         \<lparr>success = True, original = Some (filename item),
                                          renamed = Some finalName, caption = Some suggestion,
                                          failure = None, failedName = None,
                                          fileType = js ''pdf'', pdfTitle = Some (title pv),
                                          source = hostname ev, entryId = 0, timestamp = 0\<rparr>
                                         (js ''hf-api-pdf'') ([10003] @ js '' PDF Renamed'')
                                         (basename @ [10] @ js ''('' @
                                            (if title pv \<noteq> [] then title pv else js ''PDF'') @ js '')'') w3
                              in (Inr (Some finalName), w4))))))"

definition renamePdf ::
  "(jsstring \<Rightarrow> jsstring \<Rightarrow> settings \<Rightarrow> jsstring) \<Rightarrow> env \<Rightarrow> downloadItem \<Rightarrow> world
     \<Rightarrow> jsstring option \<times> world" where
  "renamePdf slug ev item w =
     (case renamePdfTry slug ev item w of
        (Inl e, w1) \<Rightarrow> (None, recordFailure ev item (js ''pdf'') e w1)
      | (Inr res, w1) \<Rightarrow> (res, w1))"

text \<open>
  A download that the flow leaves alone on purpose: an image below the minimum size with
  \<open>skipSmallImages\<close> on, once the token, the rate limiter and the fetch have let it through.
\<close>

definition skipsImage :: "env \<Rightarrow> world \<Rightarrow> bool" where
  "skipsImage ev w =
     (let st = storedSettings ev
      in hfToken st \<noteq> [] \<and> fst (checkRateLimit (now ev) w) = None
         \<and> (case fetchAnswer ev of
               Body buffer \<Rightarrow> length buffer \<le> maxImageSize st \<and> skipSmallImages st
                                 \<and> length buffer < minImageSize st
             | FetchThrows msg \<Rightarrow> False
             | NotOk status \<Rightarrow> False))"

section \<open>Concrete inputs\<close>

text \<open>A settings snapshot with a token, an empty state of the worker, and two downloads.\<close>

definition configured :: settings where
  "configured = DEFAULTS\<lparr>hfToken := js ''hf_token''\<rparr>"

definition freshWorld :: world where
  "freshWorld =
     \<lparr>requestCount = 0, requestTimestamp = 0, history = [],
      stats = \<lparr>totalRenames = 0, successful = 0, failed = 0, bySource = Map.empty\<rparr>,
      badges = [], notifications = [], fetches = [], remoteCalls = []\<rparr>"

definition photo123 :: downloadItem where
  "photo123 =
     \<lparr>filename = js ''photo123.jpg'', url = js ''https://example.com/photo123.jpg'',
      finalUrl = [], mime = js ''image/jpeg''\<rparr>"

definition reportPdf :: downloadItem where
  "reportPdf =
     \<lparr>filename = js ''report.pdf'', url = js ''https://example.com/report.pdf'',
      finalUrl = [], mime = js ''application/pdf''\<rparr>"

text \<open>
  A browser for the examples: its inflater rejects what it is given, its decoders take ASCII
  bytes only.  No example below holds a hex string, and only \<open>twoStreamPdf\<close> holds a Flate
  stream.
\<close>

definition rejectingBrowser :: platform where
  "rejectingBrowser =
     \<lparr>decompressionStream = Some (\<lambda>u8. Inl (js ''incorrect header check'')),
      utf8Decode = (\<lambda>bs. if list_all (\<lambda>b. b < 128) bs then Some bs else None),
      utf16beDecode = (\<lambda>bs. None)\<rparr>"

text \<open>One run of a flow: the model answers \<open>answer\<close>, the file fetched has the bytes \<open>body\<close>.\<close>

definition run :: "settings \<Rightarrow> bytes \<Rightarrow> jsstring \<Rightarrow> env" where
  "run cfg body answer =
     \<lparr>storedSettings = cfg, now = 1000, today = js ''2026-11-02'', fetchAnswer = Body body,
      prepared = Inr (js ''data''), captionAnswer = Inr answer, textAnswer = Inr answer,
      hostname = js ''example.com'', browser = rejectingBrowser\<rparr>"

text \<open>A text file of lines, and a PDF with one uncompressed content stream holding \<open>body\<close>.\<close>

definition pdfLines :: "string list \<Rightarrow> bytes" where
  "pdfLines ls = concat (map (\<lambda>l. js l @ [10]) ls)"

definition minimalPdf :: "string \<Rightarrow> bytes" where
  "minimalPdf body =
     pdfLines [''%PDF-1.4'', ''1 0 obj'', ''<< /Length 22 >>'', ''stream'', body, ''endstream'',
               ''endobj'', ''%%EOF'']"

text \<open>
  A PDF with a plain content stream and then a stream marked \<open>/FlateDecode\<close> whose bytes do
  not inflate.
\<close>

definition twoStreamPdf :: bytes where
  "twoStreamPdf =
     pdfLines [''%PDF-1.4'', ''1 0 obj'', ''<< /Length 52 >>'', ''stream'',
               ''BT (Annual Report 2024 of the Acme Corporation)Tj ET'', ''endstream'', ''endobj'',
               ''2 0 obj'', ''<< /Filter /FlateDecode /Length 7 >>'', ''stream'',
               ''garbage'', ''endstream'', ''endobj'', ''%%EOF'']"


definition defaultOpts :: pdfOpts where
  "defaultOpts = \<lparr>maxChars = Nullish, maxStreams = Nullish\<rparr>"

text \<open>The rate limiter checked at each time of a list, in order: the errors and the state after.\<close>

fun checkAll :: "int list \<Rightarrow> world \<Rightarrow> error option list \<times> world" where
  "checkAll [] w = ([], w)"
| "checkAll (t # ts) w =
     (case checkRateLimit t w of
        (r, w1) \<Rightarrow> (case checkAll ts w1 of (rs, w2) \<Rightarrow> (r # rs, w2)))"

text \<open>
  What one rename did to the records, from the state before and the result: nothing, or
  exactly one history entry at the front (of the last 100) whose \<open>success\<close> is that of the
  result, with one update of the counters.
\<close>

definition unrecorded :: "world \<Rightarrow> jsstring option \<times> world \<Rightarrow> bool" where
  "unrecorded w res =
     (fst res = None \<and> history (snd res) = history w \<and> stats (snd res) = stats w)"

definition recordedOnce :: "world \<Rightarrow> jsstring option \<times> world \<Rightarrow> bool" where
  "recordedOnce w res =
     (let ok = (fst res \<noteq> None); s = stats w; s' = stats (snd res)
      in (case history (snd res) of
            [] \<Rightarrow> False
          | e # es \<Rightarrow> history (snd res) = take 100 (e # history w) \<and> success e = ok)
         \<and> totalRenames s' = totalRenames s + 1
         \<and> successful s' = successful s + (if ok then 1 else 0)
         \<and> failed s' = failed s + (if ok then 0 else 1))"


section \<open>Properties of the two slugifiers\<close>

subsection \<open>Which characters survive\<close>

lemma set_replaceRuns: "set (replaceRuns P r s) \<subseteq> {c \<in> set s. \<not> P c} \<union> set r"
proof (induction P r s rule: replaceRuns.induct)
  case (1 P r)
  then show ?case by simp
next
  case (2 P r c cs)
  show ?case
  proof (cases "P c")
    case True
    with 2 have "set (replaceRuns P r (dropWhile P cs)) \<subseteq> {c \<in> set (dropWhile P cs). \<not> P c} \<union> set r"
      by simp
    moreover have "set (dropWhile P cs) \<subseteq> set cs" by (auto dest: set_dropWhileD)
    ultimately show ?thesis using True by auto
  next
    case False
    with 2 show ?thesis by auto
  qed
qed

lemma set_trim: "set (trim s) \<subseteq> set s"
  unfolding trim_def by (auto dest!: set_dropWhileD)

lemma in_set_removeArticles: "x \<in> set (removeArticles pw s) \<Longrightarrow> x \<in> set s"
  by (induction pw s rule: removeArticles.induct) (auto dest: in_set_dropD split: if_splits)

lemma set_removeArticles: "set (removeArticles pw s) \<subseteq> set s"
  using in_set_removeArticles by blast

lemma split_nonempty: "split sep s \<noteq> []"
  by (induction s) (auto split: list.splits)

lemma set_split: "w \<in> set (split sep s) \<Longrightarrow> set w \<subseteq> set s - {sep}"
proof (induction s arbitrary: w)
  case Nil
  then show ?case by simp
next
  case (Cons c cs)
  show ?case
  proof (cases "c = sep")
    case True
    with Cons show ?thesis by auto
  next
    case False
    obtain a list where sp: "split sep cs = a # list"
      using split_nonempty [of sep cs] by (cases "split sep cs") auto
    from Cons.IH [of a] sp have a: "set a \<subseteq> set cs - {sep}" by simp
    from Cons.prems False sp have "w = c # a \<or> w \<in> set list" by auto
    then show ?thesis
    proof
      assume "w = c # a"
      with a False show ?thesis by auto
    next
      assume "w \<in> set list"
      with Cons.IH [of w] sp show ?thesis by auto
    qed
  qed
qed

lemma set_join: "set (join sep ws) \<subseteq> set sep \<union> \<Union> (set ` set ws)"
  by (induction sep ws rule: join.induct) auto

lemma set_slice0: "set (slice0 xs n) \<subseteq> set xs"
  unfolding slice0_def by (auto dest: in_set_takeD)

lemma lowerChar_not_upper: "\<not> isUpper (lowerChar c)"
  unfolding lowerChar_def isUpper_def by auto

lemma isDigit_nameChar: "isDigit c \<Longrightarrow> isNameChar c"
  by (simp add: isNameChar_def isLowerAlnum_def)

lemma isoDate_nameChars: 
  assumes "isIsoDate d" shows "list_all isNameChar d"
proof -
  have "take 1 (drop 7 d) @ drop 8 d = drop 7 d"
    using append_take_drop_id [of 1 "drop 7 d"] by simp
  moreover have "take 2 (drop 5 d) @ drop 7 d = drop 5 d"
    using append_take_drop_id [of 2 "drop 5 d"] by simp
  moreover have "take 1 (drop 4 d) @ drop 5 d = drop 4 d"
    using append_take_drop_id [of 1 "drop 4 d"] by simp
  ultimately have d: "d = take 4 d @ take 1 (drop 4 d) @ take 2 (drop 5 d) @ take 1 (drop 7 d) @ drop 8 d"
    by simp
  have h: "list_all isNameChar (js ''-'')" by (simp add: js_def isNameChar_def isHyphen_def)
  have dg: "\<And>xs. list_all isDigit xs \<Longrightarrow> list_all isNameChar xs"
    by (simp add: list_all_iff isDigit_nameChar)
  from assms have "list_all isNameChar (take 4 d @ take 1 (drop 4 d) @ take 2 (drop 5 d) @ take 1 (drop 7 d) @ drop 8 d)"
    unfolding isIsoDate_def using h dg by simp
  with d show ?thesis by simp
qed

lemma limited_nameChars: "list_all isNameChar (limited cap st)"
proof -
  let ?t0 = "filter (\<lambda>c. isWord c \<or> isSpace c \<or> isHyphen c) (toLowerCase cap)"
  have t0: "\<forall>c \<in> set ?t0. isNameChar c \<or> isSpace c"
    using lowerChar_not_upper
    by (auto simp: toLowerCase_def isWord_def isAlnum_def isNameChar_def isLowerAlnum_def)
  have ns: "\<And>s. \<forall>c \<in> set s. isNameChar c \<or> isSpace c \<Longrightarrow>
              \<forall>c \<in> set (normalizeSpaces s). isNameChar c \<or> c = ch CHR '' ''"
    unfolding normalizeSpaces_def
    using set_trim set_replaceRuns [of isSpace "js '' ''"] by (fastforce simp: js_def)
  have sp: "isSpace (ch CHR '' '')" by (simp add: isSpace_def)
  let ?t1 = "normalizeSpaces ?t0"
  from ns [OF t0] have t1: "\<forall>c \<in> set ?t1. isNameChar c \<or> c = ch CHR '' ''" .
  let ?t2 = "if cleanCaptions st then normalizeSpaces (removeArticles False ?t1) else ?t1"
  have "\<forall>c \<in> set (removeArticles False ?t1). isNameChar c \<or> isSpace c"
    using t1 set_removeArticles [of False ?t1] sp by auto
  from ns [OF this] t1 have t2: "\<forall>c \<in> set ?t2. isNameChar c \<or> c = ch CHR '' ''" by simp
  let ?ws = "filter (\<lambda>w. length w > 0) (split (ch CHR '' '') ?t2)"
  have ws: "\<forall>w \<in> set ?ws. \<forall>c \<in> set w. isNameChar c"
    using t2 set_split [of _ "ch CHR '' ''" ?t2] by fastforce
  let ?n = "if maxWords st = 0 then 5 else maxWords st"
  have "\<forall>c \<in> set (join (js ''-'') (slice0 ?ws ?n)). isNameChar c"
    using set_join [of "js ''-''" "slice0 ?ws ?n"] set_slice0 [of ?ws ?n] ws
    by (fastforce simp: js_def isNameChar_def isHyphen_def)
  then show ?thesis
    by (simp add: limited_def Let_def list_all_iff)
qed

lemma captionToFilename_nameChars:
  assumes "isIsoDate date"
  shows "captionToFilename date cap st \<noteq> [] \<and> list_all isNameChar (captionToFilename date cap st)"
  using limited_nameChars [of cap st] isoDate_nameChars [OF assms]
  by (auto simp: captionToFilename_def js_def isNameChar_def isHyphen_def isLowerAlnum_def isLower_def)


subsection \<open>The first version always gives a slug\<close>

lemma alnum_not_hyphen: "isLowerAlnum c \<Longrightarrow> \<not> isHyphen c"
  by (auto simp: isLowerAlnum_def isHyphen_def isLower_def isDigit_def)

lemma slugDFA_append: "slugDFA b s \<Longrightarrow> slugDFA True t \<Longrightarrow> slugDFA b (s @ t)"
  by (induction s arbitrary: b) (auto split: if_splits)

lemma slugDFA_last: "slugDFA b s \<Longrightarrow> s \<noteq> [] \<Longrightarrow> \<not> isHyphen (last s)"
  by (induction s arbitrary: b) (auto simp: alnum_not_hyphen split: if_splits)

lemma slugDFA_digits: "list_all isDigit w \<Longrightarrow> b \<or> w \<noteq> [] \<Longrightarrow> slugDFA b w"
  by (induction w arbitrary: b) (auto simp: isLowerAlnum_def)

lemma slugDFA_isoDate:
  assumes "isIsoDate d" shows "slugDFA True (js ''-'' @ d)"
proof -
  have "take 1 (drop 7 d) @ drop 8 d = drop 7 d"
    using append_take_drop_id [of 1 "drop 7 d"] by simp
  moreover have "take 2 (drop 5 d) @ drop 7 d = drop 5 d"
    using append_take_drop_id [of 2 "drop 5 d"] by simp
  moreover have "take 1 (drop 4 d) @ drop 5 d = drop 4 d"
    using append_take_drop_id [of 1 "drop 4 d"] by simp
  ultimately have d: "d = take 4 d @ js ''-'' @ take 2 (drop 5 d) @ js ''-'' @ drop 8 d"
    using assms by (simp add: isIsoDate_def)
  from assms have l: "take 4 d \<noteq> []" "take 2 (drop 5 d) \<noteq> []" "drop 8 d \<noteq> []"
    by (auto simp: isIsoDate_def)
  have h: "\<And>w. slugDFA False w \<Longrightarrow> slugDFA True (js ''-'' @ w)"
    by (simp add: js_def isHyphen_def isLowerAlnum_def isLower_def isDigit_def)
  from assms l have 1: "slugDFA False (drop 8 d)" and 2: "slugDFA False (take 2 (drop 5 d))"
    and 3: "slugDFA False (take 4 d)"
    by (auto simp: isIsoDate_def intro: slugDFA_digits)
  have "slugDFA False (take 4 d @ js ''-'' @ take 2 (drop 5 d) @ js ''-'' @ drop 8 d)"
    by (intro slugDFA_append 3 h 2 1)
  with d have "slugDFA False d" by simp
  then show ?thesis by (rule h)
qed

lemma slug_of_shape:
  "list_all isSlugChar s \<Longrightarrow> noDouble s \<Longrightarrow> s \<noteq> [] \<Longrightarrow> \<not> isHyphen (last s)
     \<Longrightarrow> b \<or> \<not> isHyphen (hd s) \<Longrightarrow> slugDFA b s"
proof (induction s arbitrary: b)
  case Nil
  then show ?case by simp
next
  case (Cons c cs)
  show ?case
  proof (cases cs)
    case Nil
    with Cons.prems show ?thesis by (auto simp: isSlugChar_def)
  next
    case (Cons d ds)
    with Cons.prems Cons.IH [of "isLowerAlnum c"] show ?thesis
      by (auto simp: isSlugChar_def alnum_not_hyphen split: if_splits)
  qed
qed

lemma replaceRuns_start:
  "s = [] \<or> \<not> P (hd s) \<Longrightarrow> replaceRuns P r s = [] \<or> \<not> P (hd (replaceRuns P r s))"
  by (cases s) auto

lemma noDouble_Cons: "noDouble t \<Longrightarrow> t = [] \<or> \<not> isHyphen (hd t) \<or> \<not> isHyphen c \<Longrightarrow> noDouble (c # t)"
  by (cases t) auto

lemma noDouble_collapse: "noDouble (replaceRuns isHyphen (js ''-'') s)"
proof (induction isHyphen "js ''-''" s rule: replaceRuns.induct)
  case 1
  then show ?case by simp
next
  case (2 c cs)
  show ?case
  proof (cases "isHyphen c")
    case True
    have "dropWhile isHyphen cs = [] \<or> \<not> isHyphen (hd (dropWhile isHyphen cs))"
      using hd_dropWhile [of isHyphen cs] by blast
    from this replaceRuns_start [where P=isHyphen and r="js ''-''" and s="dropWhile isHyphen cs"] 2 True show ?thesis
      by (auto simp: js_def intro!: noDouble_Cons)
  next
    case False
    with 2 show ?thesis by (auto intro!: noDouble_Cons)
  qed
qed

lemma noDouble_tl: "noDouble (c # cs) \<Longrightarrow> noDouble cs"
  by (cases cs) auto

lemma noDouble_hyphen_next: "noDouble (c # cs) \<Longrightarrow> isHyphen c \<Longrightarrow> cs = [] \<or> \<not> isHyphen (hd cs)"
  by (cases cs) auto

lemma noDouble_butlast: "noDouble s \<Longrightarrow> noDouble (butlast s)"
proof (induction s rule: noDouble.induct)
  case (1 a b r)
  then show ?case by (cases r) auto
qed auto

lemma noDouble_butlast_last:
  "noDouble s \<Longrightarrow> s \<noteq> [] \<Longrightarrow> isHyphen (last s) \<Longrightarrow> butlast s = [] \<or> \<not> isHyphen (last (butlast s))"
proof (induction s rule: noDouble.induct)
  case (1 a b r)
  then show ?case by (cases r) (auto split: if_splits)
qed auto

lemma hd_butlast: "butlast s \<noteq> [] \<Longrightarrow> hd (butlast s) = hd s"
  by (cases s) (auto split: if_splits)

lemma trimHyphen_slug:
  assumes "list_all isSlugChar v" and "noDouble v"
  shows "trimHyphen v = [] \<or> slugDFA False (trimHyphen v)"
proof -
  define s1 where "s1 = (case v of [] \<Rightarrow> [] | c # cs \<Rightarrow> if isHyphen c then cs else v)"
  have "list_all isSlugChar s1 \<and> noDouble s1 \<and> (s1 = [] \<or> \<not> isHyphen (hd s1))"
  proof (cases v)
    case Nil
    then show ?thesis by (simp add: s1_def)
  next
    case (Cons c cs)
    with assms noDouble_tl [of c cs] noDouble_hyphen_next [of c cs]
    show ?thesis by (auto simp: s1_def)
  qed
  then have s1: "list_all isSlugChar s1" "noDouble s1" "s1 = [] \<or> \<not> isHyphen (hd s1)"
    by simp_all
  define t where "t = (if s1 \<noteq> [] \<and> isHyphen (last s1) then butlast s1 else s1)"
  have t: "trimHyphen v = t" by (simp add: trimHyphen_def t_def s1_def Let_def)
  have "t = [] \<or> (list_all isSlugChar t \<and> noDouble t \<and> \<not> isHyphen (last t) \<and> \<not> isHyphen (hd t))"
    using s1 noDouble_butlast [of s1] noDouble_butlast_last [of s1] hd_butlast [of s1]
    by (auto simp: t_def list_all_iff dest: in_set_butlastD)
  then show ?thesis unfolding t by (auto intro: slug_of_shape)
qed

lemma kebab_slug: "kebab s = [] \<or> slugDFA False (kebab s)"
proof -
  let ?f = "filter (\<lambda>c. isLowerAlnum c \<or> isSpace c \<or> isHyphen c) s"
  let ?a = "replaceRuns isSpace (js ''-'') ?f"
  let ?b = "replaceRuns isHyphen (js ''-'') ?a"
  have "\<forall>c \<in> set ?a. isSlugChar c"
    using set_replaceRuns [of isSpace "js ''-''" ?f] by (fastforce simp: js_def isSlugChar_def isHyphen_def)
  then have "\<forall>c \<in> set ?b. isSlugChar c"
    using set_replaceRuns [of isHyphen "js ''-''" ?a] by (fastforce simp: js_def isSlugChar_def isHyphen_def)
  then have "list_all isSlugChar ?b" by (simp add: list_all_iff)
  from trimHyphen_slug [OF this noDouble_collapse] show ?thesis by (simp add: kebab_def)
qed

lemma firstWords_Cons:
  "join (js ''-'') (take (Suc m) (split (ch CHR ''-'') (c # cs))) =
     (if isHyphen c then (if m = 0 then [] else c # join (js ''-'') (take m (split (ch CHR ''-'') cs)))
      else c # join (js ''-'') (take (Suc m) (split (ch CHR ''-'') cs)))"
proof (cases "isHyphen c")
  case True
  show ?thesis
  proof (cases m)
    case 0
    with True show ?thesis by (simp add: isHyphen_def)
  next
    case (Suc k)
    obtain a list where sp: "split (ch CHR ''-'') cs = a # list"
      using split_nonempty [of "ch CHR ''-''" cs] by (cases "split (ch CHR ''-'') cs") auto
    with True Suc show ?thesis by (simp add: isHyphen_def js_def)
  qed
next
  case False
  obtain a list where sp: "split (ch CHR ''-'') cs = a # list"
    using split_nonempty [of "ch CHR ''-''" cs] by (cases "split (ch CHR ''-'') cs") auto
  with False show ?thesis by (cases "take m list") (auto simp: isHyphen_def)
qed

lemma firstWords_slug:
  "slugDFA b s \<Longrightarrow> slugDFA b (join (js ''-'') (take (Suc m) (split (ch CHR ''-'') s)))"
proof (induction s arbitrary: b m)
  case Nil
  then show ?case by simp
next
  case (Cons c cs)
  show ?case
  proof (cases "isLowerAlnum c")
    case True
    with Cons.prems have "slugDFA True cs" by simp
    from Cons.IH [OF this, of m] True show ?thesis
      by (simp only: firstWords_Cons) (simp add: alnum_not_hyphen)
  next
    case False
    with Cons.prems have c: "isHyphen c" "b" "slugDFA False cs" by (auto split: if_splits)
    show ?thesis
    proof (cases m)
      case 0
      with c show ?thesis by (simp only: firstWords_Cons) simp
    next
      case (Suc k)
      from Cons.IH [OF c(3), of k] c False Suc show ?thesis
        by (simp only: firstWords_Cons) simp
    qed
  qed
qed

lemma limitWords_slug:
  assumes "s = [] \<or> slugDFA False s"
  shows "limitWords n s = [] \<or> slugDFA False (limitWords n s)"
proof (cases "n \<noteq> 0 \<and> n > 0 \<and> int (length (split (ch CHR ''-'') s)) > n")
  case True
  then obtain m where m: "nat n = Suc m" by (cases "nat n") auto
  from True have "s \<noteq> []" by auto
  with assms have "slugDFA False s" by simp
  from firstWords_slug [OF this, of m] True m show ?thesis
    by (simp add: limitWords_def Let_def)
next
  case False
  with assms show ?thesis by (auto simp: limitWords_def Let_def)
qed

lemma stripTrailing_Nil: "(rev (dropWhile isHyphen (rev u)) = []) = (\<forall>x \<in> set u. isHyphen x)"
  by (simp add: dropWhile_eq_Nil_conv)

lemma stripTrailing_Cons:
  "rev (dropWhile isHyphen (rev (c # u))) =
     (if (\<forall>x \<in> set u. isHyphen x) \<and> isHyphen c then [] else c # rev (dropWhile isHyphen (rev u)))"
  by (simp add: dropWhile_append)

lemma stripTrailing_slug:
  "slugDFA b s \<Longrightarrow> rev (dropWhile isHyphen (rev (take k s))) = []
     \<or> slugDFA b (rev (dropWhile isHyphen (rev (take k s))))"
proof (induction s arbitrary: b k)
  case Nil
  then show ?case by simp
next
  case (Cons c cs)
  show ?case
  proof (cases k)
    case 0
    then show ?thesis by simp
  next
    case (Suc j)
    let ?t = "rev (dropWhile isHyphen (rev (take j cs)))"
    show ?thesis
    proof (cases "isLowerAlnum c")
      case True
      with Cons.prems have "slugDFA True cs" by simp
      from Cons.IH [OF this, of j] have "slugDFA True ?t"
        by (elim disjE) (simp_all only: slugDFA.simps)
      with True Suc show ?thesis
        by (simp only: take_Suc_Cons stripTrailing_Cons) (simp add: alnum_not_hyphen)
    next
      case False
      with Cons.prems have c: "isHyphen c" "b" "slugDFA False cs" by (auto split: if_splits)
      from Cons.IH [OF c(3), of j] have t: "?t = [] \<or> slugDFA False ?t" .
      show ?thesis
      proof (cases "\<forall>x \<in> set (take j cs). isHyphen x")
        case True
        with c Suc show ?thesis
          by (simp only: take_Suc_Cons stripTrailing_Cons) simp
      next
        case False
        with stripTrailing_Nil [of "take j cs"] have "?t \<noteq> []" by blast
        with t have "slugDFA False ?t" by blast
        with c False Suc \<open>\<not> isLowerAlnum c\<close> show ?thesis
          by (simp only: take_Suc_Cons stripTrailing_Cons) simp
      qed
    qed
  qed
qed

lemma limitLength_slug:
  assumes "s = [] \<or> slugDFA False s"
  shows "limitLength s = [] \<or> slugDFA False (limitLength s)"
  using assms stripTrailing_slug [of False s 60] by (auto simp: limitLength_def)

lemma limitLength_length: "length (limitLength s) \<le> 60"
proof -
  have "length (rev (dropWhile isHyphen (rev (take 60 s)))) \<le> 60"
    using length_dropWhile_le [of isHyphen "rev (take 60 s)"] by simp
  then show ?thesis by (auto simp: limitLength_def)
qed

lemma slugRaw_v1_slug: "slugRaw_v1 cap st = [] \<or> slugDFA False (slugRaw_v1 cap st)"
  unfolding slugRaw_v1_def Let_def
  by (intro limitLength_slug limitWords_slug kebab_slug)

lemma image_slug: "slugDFA False (js ''image'')"
  by (simp add: js_def isLowerAlnum_def isLower_def)

lemma slugBase_v1_slug: "slugDFA False (slugBase_v1 cap st)"
  using slugRaw_v1_slug [of cap st] image_slug by (auto simp: slugBase_v1_def Let_def)

lemma slugBase_v1_length: "2 \<le> length (slugBase_v1 cap st) \<and> length (slugBase_v1 cap st) \<le> 60"
  using limitLength_length by (auto simp: slugBase_v1_def slugRaw_v1_def Let_def js_def)

lemma captionToFilename_v1_slug:
  assumes "isIsoDate date"
  shows "matchesSlug (captionToFilename_v1 date cap st)"
  using slugBase_v1_slug [of cap st] slugDFA_isoDate [OF assms]
  by (auto simp: captionToFilename_v1_def matchesSlug_def intro: slugDFA_append)

section \<open>Claims about the slugifier\<close>

lemmas char_defs = isUpper_def isWord_def isAlnum_def isLower_def isDigit_def isSpace_def
  isHyphen_def isLowerAlnum_def isCtl_def isOctalDigit_def isHexDigit_def isLineTerminator_def
  isNameChar_def isSlugChar_def

lemmas slug_defs = captionToFilename_def limited_def normalizeSpaces_def captionToFilename_v1_def
  slugBase_v1_def slugRaw_v1_def kebab_def trimHyphen_def limitWords_def limitLength_def
  stripLeadingArticle_def toLowerCase_def lowerChar_def trim_def startsWith_def ciStartsWith_def
  canon_def wordEnd_def slice0_def matchesSlug_def isIsoDate_def js_def

lemmas example_defs = DEFAULTS_def configured_def freshWorld_def photo123_def reportPdf_def
  rejectingBrowser_def run_def pdfLines_def minimalPdf_def twoStreamPdf_def defaultOpts_def

lemmas flow_defs = renameImage_def renameImageTry_def renamePdf_def renamePdfTry_def
  recordFailure_def recordSuccess_def failureEntry_def checkRateLimit_def maxPerMinute_def addToHistory_def
  updateStats_def updateBadge_def notify_def fetchFile_def getImageExtension_def imageTypes_def
  stripExtension_def skipsImage_def unrecorded_def recordedOnce_def

text \<open>
  C1 (as amended).  For a fixed date of the form YYYY-MM-DD both slugifiers are functions of
  the caption and the settings.  The result of the first version always matches
  \<open>^[a-z0-9]+(-[a-z0-9]+)*$\<close> (the fallback \<open>image\<close> and the date suffix included).  The
  version of hf-api.js keeps the underscores and hyphens of the caption: its result is never
  empty and consists of the characters \<open>[a-z0-9_-]\<close> only.
\<close>

theorem captionToFilename_shape:
  assumes "isIsoDate date"
  shows "matchesSlug (captionToFilename_v1 date cap cfg)
         \<and> captionToFilename date cap cfg \<noteq> []
         \<and> list_all isNameChar (captionToFilename date cap cfg)"
  using captionToFilename_v1_slug [OF assms, of cap cfg]
    captionToFilename_nameChars [OF assms, of cap cfg]
  by simp

theorem captionToFilename_shape_witness:
  "isIsoDate (js ''2026-11-02'')
   \<and> matchesSlug (captionToFilename_v1 (js ''2026-11-02'') (js ''The Quick Brown Fox'')
                    (DEFAULTS\<lparr>addDateSuffix := True\<rparr>))
   \<and> captionToFilename (js ''2026-11-02'') (js ''The Quick Brown Fox'')
        (DEFAULTS\<lparr>addDateSuffix := True\<rparr>) \<noteq> []
   \<and> list_all isNameChar (captionToFilename (js ''2026-11-02'') (js ''The Quick Brown Fox'')
                             (DEFAULTS\<lparr>addDateSuffix := True\<rparr>))"
proof -
  have d: "isIsoDate (js ''2026-11-02'')"
    by (simp add: isIsoDate_def js_def isDigit_def)
  from captionToFilename_shape [OF d] d show ?thesis by simp
qed

text \<open>
  C1 as stated fails for hf-api.js: a caption with a hyphen between spaces gives three
  hyphens in a row, which is neither a slug nor a fallback literal.
\<close>

theorem captionToFilename_not_slug:
  "captionToFilename (js ''2026-11-02'') (js ''black - white cat'') DEFAULTS
     = js ''black---white-cat''
   \<and> \<not> matchesSlug (captionToFilename (js ''2026-11-02'') (js ''black - white cat'') DEFAULTS)"
  by (simp add: slug_defs char_defs DEFAULTS_def)

text \<open>
  C3 (as amended).  In the first version the name before the date suffix has at most 60
  characters and does not end in a hyphen; without the date suffix it is the result.
\<close>

theorem slugBase_v1_bounded:
  "length (slugBase_v1 cap cfg) \<le> 60
   \<and> slugBase_v1 cap cfg \<noteq> []
   \<and> \<not> isHyphen (last (slugBase_v1 cap cfg))
   \<and> captionToFilename_v1 date cap (cfg\<lparr>addDateSuffix := False\<rparr>) = slugBase_v1 cap cfg"
proof -
  have ne: "slugBase_v1 cap cfg \<noteq> []"
    using slugBase_v1_length [of cap cfg] by auto
  have "slugBase_v1 cap (cfg\<lparr>addDateSuffix := False\<rparr>) = slugBase_v1 cap cfg"
    by (simp add: slugBase_v1_def slugRaw_v1_def)
  then show ?thesis
    using slugBase_v1_length [of cap cfg] ne slugDFA_last [OF slugBase_v1_slug ne]
    by (simp add: captionToFilename_v1_def)
qed

text \<open>
  C3 as stated fails for hf-api.js, which has no length limit: five long words give a
  name of 77 characters.
\<close>

theorem captionToFilename_no_length_cap:
  "length (captionToFilename (js ''2026-11-02'')
             (js ''internationalization standardization documentation requirements specification'')
             DEFAULTS) = 77"
  by (simp add: slug_defs char_defs DEFAULTS_def)

text \<open>
  C4 (as amended).  The first version puts \<open>image\<close> in place of a name that is empty or
  shorter than two characters, so its name before the date suffix has at least two
  characters, and an empty caption gives \<open>image\<close>.  The version of hf-api.js, which both
  flows of the worker call, puts \<open>download\<close> in place of an empty name only, and only when
  no date suffix is added; an empty caption then gives \<open>download\<close>.
\<close>

theorem fallback_literals:
  "slugBase_v1 cap cfg = (if length (slugRaw_v1 cap cfg) < 2 then js ''image'' else slugRaw_v1 cap cfg)
   \<and> 2 \<le> length (slugBase_v1 cap cfg)
   \<and> slugBase_v1 [] cfg = js ''image''
   \<and> captionToFilename date cap (cfg\<lparr>addDateSuffix := False\<rparr>)
       = (if limited cap cfg = [] then js ''download'' else limited cap cfg)
   \<and> captionToFilename date [] (cfg\<lparr>addDateSuffix := False\<rparr>) = js ''download''"
proof -
  have a: "slugBase_v1 cap cfg = (if length (slugRaw_v1 cap cfg) < 2 then js ''image'' else slugRaw_v1 cap cfg)"
    by (auto simp: slugBase_v1_def Let_def)
  have "split (ch CHR ''-'') [] = [[]]" by simp
  then have "slugRaw_v1 [] cfg = []"
    by (simp add: slugRaw_v1_def toLowerCase_def stripLeadingArticle_def kebab_def trimHyphen_def
        limitWords_def limitLength_def startsWith_def ciStartsWith_def js_def Let_def)
  then have b: "slugBase_v1 [] cfg = js ''image''"
    by (simp add: slugBase_v1_def)
  have l: "limited cap (cfg\<lparr>addDateSuffix := False\<rparr>) = limited cap cfg" for cap
    by (simp add: limited_def)
  have "limited [] cfg = []"
    by (simp add: limited_def normalizeSpaces_def toLowerCase_def trim_def slice0_def)
  with a b l slugBase_v1_length [of cap cfg] show ?thesis
    by (simp add: captionToFilename_def)
qed

text \<open>
  C4 as stated fails for hf-api.js: a name of one character is kept, and in the image flow
  of the worker an empty caption gives \<open>download.jpg\<close>, not \<open>image.jpg\<close>.
\<close>

theorem fallback_not_image:
  "captionToFilename (js ''2026-11-02'') (js ''x'') DEFAULTS = js ''x''
   \<and> fst (renameImage captionToFilename (run configured [1, 2, 3] []) photo123 freshWorld)
       = Some (js ''download.jpg'')"
  by (simp add: slug_defs char_defs example_defs flow_defs Let_def)

text \<open>
  C2 (as amended).  The download \<open>photo123.jpg\<close>, the caption "a white cat sitting on
  floor", \<open>cleanCaptions\<close> on and \<open>maxWords\<close> 4: with the first version of the slugifier, which
  removes "on" between spaces, the image flow returns \<open>white-cat-sitting-floor.jpg\<close>; with
  the slugifier of hf-api.js, which removes articles only, it returns
  \<open>white-cat-sitting-on.jpg\<close>.
\<close>

theorem white_cat_filename:
  "fst (renameImage captionToFilename_v1
          (run (configured\<lparr>cleanCaptions := True, maxWords := 4\<rparr>) [1, 2, 3]
             (js ''a white cat sitting on floor'')) photo123 freshWorld)
     = Some (js ''white-cat-sitting-floor.jpg'')
   \<and> fst (renameImage captionToFilename
          (run (configured\<lparr>cleanCaptions := True, maxWords := 4\<rparr>) [1, 2, 3]
             (js ''a white cat sitting on floor'')) photo123 freshWorld)
     = Some (js ''white-cat-sitting-on.jpg'')"
  by (simp add: slug_defs char_defs example_defs flow_defs Let_def)

text \<open>C2 as stated fails for hf-api.js: the file name is not \<open>white-cat-sitting-floor.jpg\<close>.\<close>

theorem white_cat_keeps_on:
  "fst (renameImage captionToFilename
          (run (configured\<lparr>cleanCaptions := True, maxWords := 4\<rparr>) [1, 2, 3]
             (js ''a white cat sitting on floor'')) photo123 freshWorld)
     \<noteq> Some (js ''white-cat-sitting-floor.jpg'')"
  by (simp add: slug_defs char_defs example_defs flow_defs Let_def)

section \<open>Claims about the rate limiter and the two flows\<close>

lemma checkRateLimit_in_window:
  "t - requestTimestamp w \<le> 60000 \<Longrightarrow> requestCount w < maxPerMinute
     \<Longrightarrow> checkRateLimit t w = (None, w\<lparr>requestCount := requestCount w + 1\<rparr>)"
  by (simp add: checkRateLimit_def)

lemma checkAll_in_window:
  "\<forall>u \<in> set ts. u - requestTimestamp w \<le> 60000 \<Longrightarrow> requestCount w + length ts \<le> maxPerMinute
     \<Longrightarrow> checkAll ts w = (replicate (length ts) None, w\<lparr>requestCount := requestCount w + length ts\<rparr>)"
proof (induction ts arbitrary: w)
  case Nil
  then show ?case by simp
next
  case (Cons t ts)
  let ?w1 = "w\<lparr>requestCount := requestCount w + 1\<rparr>"
  from Cons.prems have 1: "checkRateLimit t w = (None, ?w1)"
    by (intro checkRateLimit_in_window) auto
  from Cons.prems have "checkAll ts ?w1
      = (replicate (length ts) None, ?w1\<lparr>requestCount := requestCount ?w1 + length ts\<rparr>)"
    by (intro Cons.IH) auto
  with 1 show ?case by simp
qed

text \<open>
  C6 (as amended).  \<open>checkRateLimit\<close> throws exactly when the ceiling is reached in the
  current window, a window being over once more than 60000 ms have passed since its start.
  From a counter at 0, as many checks as the ceiling allows, all within 60000 ms of the window
  start, succeed; one more within the window fails, with the remaining time as the wait; the
  first check more than 60000 ms after the window start succeeds and leaves the counter at 1
  and the window start at that time.
\<close>

theorem rate_limit_window:
  assumes "list_all (\<lambda>u. u - requestTimestamp w \<le> 60000) ts"
    and "requestCount w = 0" and "length ts = maxPerMinute"
    and "t - requestTimestamp w \<le> 60000" and "t' - requestTimestamp w > 60000"
  shows "fst (checkAll ts w) = replicate maxPerMinute None
    \<and> fst (checkRateLimit t (snd (checkAll ts w)))
        = Some (RateLimitReached (60000 - (t - requestTimestamp w)))
    \<and> checkRateLimit t' (snd (checkAll ts w))
        = (None, (snd (checkAll ts w))\<lparr>requestCount := 1, requestTimestamp := t'\<rparr>)
    \<and> (fst (checkRateLimit u v) \<noteq> None)
        = (maxPerMinute \<le> (if u - requestTimestamp v > 60000 then 0 else requestCount v))"
proof -
  from assms have "checkAll ts w = (replicate maxPerMinute None, w\<lparr>requestCount := maxPerMinute\<rparr>)"
    using checkAll_in_window [of ts w] by (simp add: list_all_iff)
  with assms show ?thesis
    by (simp add: checkRateLimit_def maxPerMinute_def Let_def)
qed

theorem rate_limit_window_witness:
  "list_all (\<lambda>u. u - requestTimestamp freshWorld \<le> 60000) (replicate 30 0)
   \<and> requestCount freshWorld = 0 \<and> length (replicate 30 (0::int)) = maxPerMinute
   \<and> (59999::int) - requestTimestamp freshWorld \<le> 60000
   \<and> (60001::int) - requestTimestamp freshWorld > 60000
   \<and> fst (checkAll (replicate 30 0) freshWorld) = replicate maxPerMinute None
   \<and> fst (checkRateLimit 59999 (snd (checkAll (replicate 30 0) freshWorld)))
       = Some (RateLimitReached 1)
   \<and> checkRateLimit 60001 (snd (checkAll (replicate 30 0) freshWorld))
       = (None, (snd (checkAll (replicate 30 0) freshWorld))\<lparr>requestCount := 1, requestTimestamp := 60001\<rparr>)"
proof -
  have h: "list_all (\<lambda>u. u - requestTimestamp freshWorld \<le> 60000) (replicate 30 0)"
    "requestCount freshWorld = 0" "length (replicate 30 (0::int)) = maxPerMinute"
    "(59999::int) - requestTimestamp freshWorld \<le> 60000"
    "(60001::int) - requestTimestamp freshWorld > 60000"
    by (simp_all add: freshWorld_def maxPerMinute_def list_all_iff)
  from rate_limit_window [OF h] h show ?thesis
    by (simp add: freshWorld_def)
qed

text \<open>
  C6 as stated fails at the boundary: exactly 60000 ms after the window start the counter
  is not reset, and with the ceiling consumed the check fails with a wait of 0 ms.
\<close>

theorem no_reset_at_60000:
  "checkRateLimit 60000 (freshWorld\<lparr>requestCount := 30\<rparr>)
     = (Some (RateLimitReached 0), freshWorld\<lparr>requestCount := 30\<rparr>)"
  by (simp add: checkRateLimit_def maxPerMinute_def freshWorld_def)

text \<open>
  C10.  With \<open>enablePdfRenaming\<close> off, \<open>renamePdf\<close> returns \<open>null\<close> and leaves everything as it
  was: the rate limiter, the history, the counters, the badge, the notifications, and no
  fetch and no request to the model are made.
\<close>

theorem renamePdf_disabled:
  "\<not> enablePdfRenaming (storedSettings ev) \<Longrightarrow> renamePdf slug ev item w = (None, w)"
  by (simp add: renamePdf_def renamePdfTry_def)

theorem renamePdf_disabled_witness:
  "\<not> enablePdfRenaming (storedSettings (run (configured\<lparr>enablePdfRenaming := False\<rparr>)
         (minimalPdf ''BT (Hello World)Tj ET'') (js ''hello world'')))
   \<and> renamePdf captionToFilename
        (run (configured\<lparr>enablePdfRenaming := False\<rparr>)
           (minimalPdf ''BT (Hello World)Tj ET'') (js ''hello world'')) reportPdf freshWorld
       = (None, freshWorld)"
proof -
  have h: "\<not> enablePdfRenaming (storedSettings (run (configured\<lparr>enablePdfRenaming := False\<rparr>)
         (minimalPdf ''BT (Hello World)Tj ET'') (js ''hello world'')))"
    by (simp add: run_def configured_def DEFAULTS_def)
  from renamePdf_disabled [OF h] h show ?thesis by simp
qed

subsection \<open>History and counters\<close>

lemma history_recordFailure:
  "history (recordFailure ev item kind e w)
     = take 100 ((failureEntry ev item kind e)\<lparr>entryId := now ev, timestamp := now ev\<rparr> # history w)"
  by (simp add: recordFailure_def notify_def updateBadge_def updateStats_def addToHistory_def Let_def)

lemma stats_recordFailure:
  "totalRenames (stats (recordFailure ev item kind e w)) = totalRenames (stats w) + 1
   \<and> successful (stats (recordFailure ev item kind e w)) = successful (stats w)
   \<and> failed (stats (recordFailure ev item kind e w)) = failed (stats w) + 1"
  by (simp add: recordFailure_def notify_def updateBadge_def updateStats_def addToHistory_def Let_def)

lemma recordFailure_recordedOnce:
  "history w1 = history w \<Longrightarrow> stats w1 = stats w
     \<Longrightarrow> recordedOnce w (None, recordFailure ev item kind e w1)"
  using stats_recordFailure [of ev item kind e w1]
  by (simp add: recordedOnce_def history_recordFailure failureEntry_def Let_def)

lemma checkRateLimit_records:
  "checkRateLimit t w = (r, w1) \<Longrightarrow> history w1 = history w \<and> stats w1 = stats w"
  by (auto simp: checkRateLimit_def Let_def split: if_splits)

lemma fetchFile_records:
  "fetchFile ev u m w = (r, w1) \<Longrightarrow> history w1 = history w \<and> stats w1 = stats w"
  by (auto simp: fetchFile_def Let_def split: fetchResponse.splits if_splits)


lemma recordSuccess_recordedOnce:
  "history w1 = history w \<Longrightarrow> stats w1 = stats w \<Longrightarrow> success entry
     \<Longrightarrow> recordedOnce w (Some n, recordSuccess ev entry method ttl message w1)"
  by (simp add: recordedOnce_def recordSuccess_def notify_def updateBadge_def updateStats_def
      addToHistory_def Let_def)

lemma updateBadge_records:
  "history (updateBadge text color w) = history w \<and> stats (updateBadge text color w) = stats w"
  by (simp add: updateBadge_def)

lemma skipsImage_iff:
  "skipsImage ev w =
     (hfToken (storedSettings ev) \<noteq> [] \<and> fst (checkRateLimit (now ev) w) = None
      \<and> (\<exists>buffer. fetchAnswer ev = Body buffer \<and> length buffer \<le> maxImageSize (storedSettings ev)
            \<and> skipSmallImages (storedSettings ev) \<and> length buffer < minImageSize (storedSettings ev)))"
  by (auto simp: skipsImage_def Let_def split: fetchResponse.splits)

lemma fetchFile_Inr:
  "fetchFile ev u m w = (Inr buffer, w1) \<Longrightarrow> fetchAnswer ev = Body buffer \<and> length buffer \<le> m"
  by (auto simp: fetchFile_def Let_def split: fetchResponse.splits if_splits)

lemma fetchFile_Inl:
  "fetchFile ev u m w = (Inl e, w1) \<Longrightarrow> \<forall>buffer. fetchAnswer ev = Body buffer \<longrightarrow> m < length buffer"
  by (auto simp: fetchFile_def Let_def split: fetchResponse.splits if_splits)

lemma renameImageTry_cases:
  assumes "renameImageTry slug ev item w = (r, w1)"
  shows "case r of
           Inl e \<Rightarrow> history w1 = history w \<and> stats w1 = stats w \<and> \<not> skipsImage ev w
         | Inr None \<Rightarrow> history w1 = history w \<and> stats w1 = stats w \<and> skipsImage ev w
         | Inr (Some n) \<Rightarrow> recordedOnce w (Some n, w1) \<and> \<not> skipsImage ev w"
proof (cases "hfToken (storedSettings ev) = []")
  case True
  with assms show ?thesis by (auto simp: renameImageTry_def skipsImage_iff Let_def)
next
  case tok: False
  obtain c wa where c: "checkRateLimit (now ev) w = (c, wa)"
    by (cases "checkRateLimit (now ev) w")
  note ca = checkRateLimit_records [OF c]
  show ?thesis
  proof (cases c)
    case (Some e)
    with assms tok c ca show ?thesis by (auto simp: renameImageTry_def skipsImage_iff Let_def)
  next
    case None
    let ?u = "if finalUrl item \<noteq> [] then finalUrl item else url item"
    obtain f wb where f: "fetchFile ev ?u (maxImageSize (storedSettings ev))
        (updateBadge (js ''...'') (js ''#0066CC'') wa) = (f, wb)"
      by (cases "fetchFile ev ?u (maxImageSize (storedSettings ev))
        (updateBadge (js ''...'') (js ''#0066CC'') wa)")
    from fetchFile_records [OF f] ca updateBadge_records [of "js ''...''" "js ''#0066CC''" wa]
    have wb: "history wb = history w" "stats wb = stats w" by simp_all
    show ?thesis
    proof (cases f)
      case (Inl e)
      with assms tok c None f wb fetchFile_Inl [of ev ?u "maxImageSize (storedSettings ev)"
          "updateBadge (js ''...'') (js ''#0066CC'') wa" e wb]
      show ?thesis
        by (auto simp: renameImageTry_def skipsImage_iff Let_def)
    next
      case (Inr buffer)
      with assms tok c None f wb fetchFile_Inr [of ev ?u "maxImageSize (storedSettings ev)"
          "updateBadge (js ''...'') (js ''#0066CC'') wa" buffer wb]
      show ?thesis
        by (auto simp: renameImageTry_def skipsImage_iff Let_def
            intro!: recordSuccess_recordedOnce split: sum.splits if_splits)
    qed
  qed
qed

lemma renamePdfTry_cases:
  assumes "renamePdfTry slug ev item w = (r, w1)"
  shows "case r of
           Inl e \<Rightarrow> history w1 = history w \<and> stats w1 = stats w \<and> enablePdfRenaming (storedSettings ev)
         | Inr None \<Rightarrow> history w1 = history w \<and> stats w1 = stats w
                         \<and> \<not> enablePdfRenaming (storedSettings ev)
         | Inr (Some n) \<Rightarrow> recordedOnce w (Some n, w1) \<and> enablePdfRenaming (storedSettings ev)"
proof (cases "enablePdfRenaming (storedSettings ev) \<and> hfToken (storedSettings ev) \<noteq> []")
  case False
  with assms show ?thesis by (auto simp: renamePdfTry_def Let_def split: if_splits)
next
  case tok: True
  obtain c wa where c: "checkRateLimit (now ev) w = (c, wa)"
    by (cases "checkRateLimit (now ev) w")
  note ca = checkRateLimit_records [OF c]
  show ?thesis
  proof (cases c)
    case (Some e)
    with assms tok c ca show ?thesis by (auto simp: renamePdfTry_def Let_def)
  next
    case None
    let ?u = "if finalUrl item \<noteq> [] then finalUrl item else url item"
    obtain f wb where f: "fetchFile ev ?u (maxImageSize (storedSettings ev))
        (updateBadge (js ''PDF'') (js ''#6A1B9A'') wa) = (f, wb)"
      by (cases "fetchFile ev ?u (maxImageSize (storedSettings ev))
        (updateBadge (js ''PDF'') (js ''#6A1B9A'') wa)")
    from fetchFile_records [OF f] ca updateBadge_records [of "js ''PDF''" "js ''#6A1B9A''" wa]
    have wb: "history wb = history w" "stats wb = stats w" by simp_all
    show ?thesis
    proof (cases f)
      case (Inl e)
      with assms tok c None f wb show ?thesis
        by (auto simp: renamePdfTry_def Let_def)
    next
      case (Inr buffer)
      with assms tok c None f wb show ?thesis
        by (auto simp: renamePdfTry_def Let_def
            intro!: recordSuccess_recordedOnce split: sum.splits)
    qed
  qed
qed

text \<open>
  C7 (as amended).  A rename that is not skipped writes exactly one history entry, whose
  \<open>success\<close> is true exactly when a name is returned, together with exactly one update of the
  counters; a skipped one (an image below the minimum size with \<open>skipSmallImages\<close> on, a PDF with
  \<open>enablePdfRenaming\<close> off) returns \<open>null\<close> and writes neither.  The calls to the browser's
  storage, badge and notification interfaces are taken not to fail.
\<close>

theorem one_record_unless_skipped:
  "(if skipsImage ev w then unrecorded w (renameImage slug ev item w)
    else recordedOnce w (renameImage slug ev item w))
   \<and> (if enablePdfRenaming (storedSettings ev) then recordedOnce w (renamePdf slug ev item w)
      else unrecorded w (renamePdf slug ev item w))"
proof -
  obtain r w1 where i: "renameImageTry slug ev item w = (r, w1)"
    by (cases "renameImageTry slug ev item w")
  obtain q w2 where p: "renamePdfTry slug ev item w = (q, w2)"
    by (cases "renamePdfTry slug ev item w")
  have "if skipsImage ev w then unrecorded w (renameImage slug ev item w)
        else recordedOnce w (renameImage slug ev item w)"
    using renameImageTry_cases [OF i] i
    by (auto simp: renameImage_def unrecorded_def recordFailure_recordedOnce
        split: sum.splits option.splits)
  moreover have "if enablePdfRenaming (storedSettings ev) then recordedOnce w (renamePdf slug ev item w)
        else unrecorded w (renamePdf slug ev item w)"
    using renamePdfTry_cases [OF p] p
    by (auto simp: renamePdf_def unrecorded_def recordFailure_recordedOnce
        split: sum.splits option.splits)
  ultimately show ?thesis by simp
qed



theorem one_record_unless_skipped_witness:
  "\<not> skipsImage (run configured [1, 2, 3] (js ''white cat'')) freshWorld
   \<and> recordedOnce freshWorld
        (renameImage captionToFilename (run configured [1, 2, 3] (js ''white cat'')) photo123 freshWorld)
   \<and> enablePdfRenaming (storedSettings (run configured [1, 2, 3] (js ''white cat'')))
   \<and> recordedOnce freshWorld
        (renamePdf captionToFilename (run configured [1, 2, 3] (js ''white cat'')) reportPdf freshWorld)"
proof -
  have h: "\<not> skipsImage (run configured [1, 2, 3] (js ''white cat'')) freshWorld"
    "enablePdfRenaming (storedSettings (run configured [1, 2, 3] (js ''white cat'')))"
    by (simp_all add: skipsImage_def run_def configured_def DEFAULTS_def)
  from one_record_unless_skipped [of "run configured [1, 2, 3] (js ''white cat'')" freshWorld
      captionToFilename photo123] h
  have "recordedOnce freshWorld
        (renameImage captionToFilename (run configured [1, 2, 3] (js ''white cat'')) photo123 freshWorld)"
    by simp
  moreover from one_record_unless_skipped [of "run configured [1, 2, 3] (js ''white cat'')" freshWorld
      captionToFilename reportPdf] h
  have "recordedOnce freshWorld
        (renamePdf captionToFilename (run configured [1, 2, 3] (js ''white cat'')) reportPdf freshWorld)"
    by simp
  ultimately show ?thesis using h by simp
qed

text \<open>
  C7 as stated fails for a small image with \<open>skipSmallImages\<close> on: the download has entered the
  image flow (the rate limiter counted it, the badge shows the dots, the file was fetched), and
  no history entry and no counter is written.
\<close>

theorem small_image_unrecorded:
  "skipsImage (run (configured\<lparr>skipSmallImages := True\<rparr>) [1, 2, 3] (js ''white cat'')) freshWorld
   \<and> renameImage captionToFilename
        (run (configured\<lparr>skipSmallImages := True\<rparr>) [1, 2, 3] (js ''white cat'')) photo123 freshWorld
      = (None, freshWorld\<lparr>requestCount := 1, badges := [(js ''...'', js ''#0066CC'')],
                           fetches := [js ''https://example.com/photo123.jpg'']\<rparr>)"
  by (simp add: skipsImage_def renameImage_def renameImageTry_def checkRateLimit_def maxPerMinute_def
      fetchFile_def updateBadge_def js_def run_def configured_def DEFAULTS_def freshWorld_def photo123_def
      Let_def)

section \<open>Claims about the PDF extractor\<close>

lemmas pdf_defs = extractPdfPreviewText_def extractTextFromEarlyStreams_def decodedBytes_def
  inflateFlate_def extractLiteralStrings_def litMatch_def decodePdfHexString_def hexVal_def
  isUsefulText_def fontShape_def fontTail_def extractXmpTitle_def decodeHtmlEntities_def
  extractInfoTitle_def parseOct_def octAt_def includesStr_def indexOf_def cleanupText_def
  orDefault_def clampInt_def latin1Decode_def cp1252_def trim_def startsWith_def
  ciStartsWith_def canon_def js_def











text \<open>
  C5 (as amended).  A stream is kept only if the strings taken from it, joined by spaces,
  are longer than 30 characters.  For the minimal PDF whose only stream is
  \<open>BT (Hello World)Tj ET\<close> the excerpt is empty; when the stream also holds
  \<open>(This is a longer line of text)Tj\<close> the excerpt is "Hello World This is a longer line of
  text", which contains "Hello World".  At the limit: with \<open>(eighteen chars now)Tj\<close> the joined
  text has 30 characters and the excerpt is empty, with one character more it is kept.  All
  hold on every browser.
\<close>

theorem hello_world_needs_long_stream:
  "excerpt (extractPdfPreviewText pf (minimalPdf ''BT (Hello World)Tj ET'') defaultOpts) = []
   \<and> excerpt (extractPdfPreviewText pf
        (minimalPdf ''BT (Hello World)Tj (This is a longer line of text)Tj ET'') defaultOpts)
       = js ''Hello World This is a longer line of text''
   \<and> includesStr (js ''Hello World'') (js ''Hello World This is a longer line of text'')
   \<and> excerpt (extractPdfPreviewText pf
        (minimalPdf ''BT (Hello World)Tj (eighteen chars now)Tj ET'') defaultOpts) = []
   \<and> excerpt (extractPdfPreviewText pf
        (minimalPdf ''BT (Hello World)Tj (eighteen chars now!)Tj ET'') defaultOpts)
       = js ''Hello World eighteen chars now!''"
  by (simp add: minimalPdf_def pdfLines_def defaultOpts_def pdf_defs char_defs Let_def)

text \<open>C5 as stated fails: the excerpt of the minimal PDF does not contain "Hello World".\<close>

theorem short_stream_excerpt_empty:
  "\<not> includesStr (js ''Hello World'')
       (excerpt (extractPdfPreviewText rejectingBrowser (minimalPdf ''BT (Hello World)Tj ET'')
          defaultOpts))"
  by (simp add: minimalPdf_def pdfLines_def defaultOpts_def rejectingBrowser_def pdf_defs char_defs Let_def)





end
